theory Spec2Isabelle
  imports Main "HOL-Library.Sublist" "HOL-Library.Char_ord" "HOL-Library.List_Lexorder"
begin

section \<open>Python strings and paths\<close>

text \<open>
  Python strings are modelled as \<open>string\<close>. \<open>x in s\<close> on strings is \<open>sublist x s\<close>,
  \<open>s.startswith(x)\<close> is \<open>prefix x s\<close> and \<open>s.endswith(x)\<close> is \<open>suffix x s\<close>.
\<close>

definition newline :: char where
  "newline = CHR 0x0A"

definition dquote :: string where
  "dquote = [CHR 0x22]"

definition squote :: string where
  "squote = [CHR 0x27]"

text \<open>\<open>s.rstrip()\<close> removes the trailing white space. Which characters are white space
  depends on the interpreter and on the kind of string (the six ASCII ones for a byte string,
  all Unicode white space for a text string), so the class of white space is an argument.\<close>

definition rstrip :: "(char \<Rightarrow> bool) \<Rightarrow> string \<Rightarrow> string" where
  "rstrip space s = rev (dropWhile space (rev s))"

text \<open>\<open>s.split(c)\<close> for a one-character separator: never the empty list.\<close>

fun split_on :: "char \<Rightarrow> string \<Rightarrow> string list" where
  "split_on c [] = [[]]"
| "split_on c (x # xs) =
     (if x = c then [] # split_on c xs
      else (case split_on c xs of [] \<Rightarrow> [[x]] | p # ps \<Rightarrow> (x # p) # ps))"

text \<open>\<open>sep.join(parts)\<close>.\<close>

fun join_with :: "string \<Rightarrow> string list \<Rightarrow> string" where
  "join_with sep [] = []"
| "join_with sep [p] = p"
| "join_with sep (p # q # ps) = p @ sep @ join_with sep (q # ps)"

text \<open>\<open>s.replace(c, t)\<close> for a one-character pattern.\<close>

definition replace_char :: "char \<Rightarrow> string \<Rightarrow> string \<Rightarrow> string" where
  "replace_char c t s = concat (map (\<lambda>x. if x = c then t else [x]) s)"

definition lower_char :: "char \<Rightarrow> char" where
  "lower_char c =
     (if (65::nat) \<le> of_char c \<and> of_char c \<le> (90::nat)
      then char_of (of_char c + (32::nat)) else c)"

definition upper_char :: "char \<Rightarrow> char" where
  "upper_char c =
     (if (97::nat) \<le> of_char c \<and> of_char c \<le> (122::nat)
      then char_of (of_char c - (32::nat)) else c)"

text \<open>\<open>'%s' % n\<close> and \<open>'%d' % n\<close> for a natural number.\<close>

fun str_nat :: "nat \<Rightarrow> string" where
  "str_nat n =
     (if n < 10 then [''0123456789'' ! n]
      else str_nat (n div 10) @ [''0123456789'' ! (n mod 10)])"

declare str_nat.simps [simp del]

text \<open>\<open>os.path.join(a, b)\<close>, \<open>os.path.basename(p)\<close> and the last three components of a
  path (\<open>os.path.sep.join(p.split(os.path.sep)[-3:])\<close>) on a POSIX system.\<close>

definition os_path_join :: "string \<Rightarrow> string \<Rightarrow> string" where
  "os_path_join a b =
     (if prefix ''/'' b then b
      else if a = [] \<or> suffix ''/'' a then a @ b
      else a @ ''/'' @ b)"

definition basename :: "string \<Rightarrow> string" where
  "basename p = last (split_on CHR ''/'' p)"

definition last3 :: "string \<Rightarrow> string" where
  "last3 p =
     (let parts = split_on CHR ''/'' p
      in join_with ''/'' (drop (length parts - 3) parts))"

text \<open>An optional string is \<open>None\<close> or a string; \<open>if x:\<close> holds for a string that is not
  empty.\<close>

definition truthy :: "string option \<Rightarrow> bool" where
  "truthy s = (case s of None \<Rightarrow> False | Some v \<Rightarrow> v \<noteq> [])"

text \<open>The string an optional string holds when \<open>if x:\<close> succeeded.\<close>

definition name_of :: "string option \<Rightarrow> string" where
  "name_of s = (case s of None \<Rightarrow> [] | Some v \<Rightarrow> v)"

section \<open>Constants of the module\<close>

definition GITHUB_URL :: string where
  "GITHUB_URL = ''https://github.com''"

definition GITHUB_EB_MAIN :: string where
  "GITHUB_EB_MAIN = ''easybuilders''"

definition GITHUB_EASYCONFIGS_REPO :: string where
  "GITHUB_EASYCONFIGS_REPO = ''easybuild-easyconfigs''"

definition GITHUB_MAX_PER_PAGE :: nat where
  "GITHUB_MAX_PER_PAGE = 100"

definition GITHUB_RAW :: string where
  "GITHUB_RAW = ''https://raw.githubusercontent.com''"

definition GITHUB_STATE_CLOSED :: string where
  "GITHUB_STATE_CLOSED = ''closed''"

definition HTTP_STATUS_OK :: nat where
  "HTTP_STATUS_OK = 200"

definition HTTP_STATUS_CREATED :: nat where
  "HTTP_STATUS_CREATED = 201"

definition URL_SEPARATOR :: string where
  "URL_SEPARATOR = ''/''"

text \<open>\<open>VALID_CLOSE_PR_REASONS\<close>, a dictionary.\<close>

definition VALID_CLOSE_PR_REASONS :: "(string \<times> string) list" where
  "VALID_CLOSE_PR_REASONS =
     [(''archived'', ''uses an archived toolchain''),
      (''inactive'', ''no activity for > 6 months''),
      (''obsolete'', ''obsoleted by more recent PRs''),
      (''retest'', ''closing and reopening to trigger tests'')]"

section \<open>Errors, events and the world\<close>

text \<open>A raised exception is a value: \<open>EasyBuildError\<close> with its message, or another
  Python exception with its class name.\<close>

datatype error = EasyBuildError string | PyError string

text \<open>The commands sent to the local version-control driver (GitPython).\<close>

datatype gitcmd =
    GitClone string string
  | GitInit string
  | GitStatus
  | GitCreateRemote string string
  | GitRemoteExists string
  | GitFetch string
  | GitHasRef string string
  | GitCheckout string string string bool
  | GitCreateHead string
  | GitAdd "string list"
  | GitRemove "string list"
  | GitDiffCached bool
  | GitCommit string
  | GitPush string string

text \<open>
  What a run does to the outside is recorded, in order, as a list of events: console output,
  requests to the forge, operations of the file and archive utilities, and git commands.
  Logging through \<open>_log\<close> is not recorded.
\<close>

datatype event =
    PrintMsg string
  | PrintStderr string
  | PrintWarning string
  | Stdout string
  | ApiGet "string list"
  | ApiPost "string list" "(string \<times> string) list"
  | ApiPut "string list" "(string \<times> string) list"
  | FetchToken "string option"
  | Mkdtemp string
  | Mkdir string
  | DownloadFile string string string
  | ExtractFile string string
  | WriteFile string string
  | ApplyPatch string string
  | Symlink string string
  | CopyEasyconfigs "string list" string
  | CopyPatchFiles "(string \<times> string) list" string
  | Git gitcmd

text \<open>The state a run works on: the regular files with their text, the directories, and the
  events so far.\<close>

record world =
  files :: "string \<rightharpoonup> string"
  dirs :: "string set"
  trace :: "event list"

text \<open>The file system of a world: what the queries of the file system depend on.\<close>

type_synonym filesystem = "(string \<rightharpoonup> string) \<times> string set"

definition fs_of :: "world \<Rightarrow> filesystem" where
  "fs_of w = (files w, dirs w)"

text \<open>A computation takes the world and returns an error or a value, with the new world.\<close>

type_synonym 'a prog = "world \<Rightarrow> (error + 'a) \<times> world"

definition ret :: "'a \<Rightarrow> 'a prog" where
  "ret x = (\<lambda>w. (Inr x, w))"

definition raise :: "error \<Rightarrow> 'a prog" where
  "raise e = (\<lambda>w. (Inl e, w))"

definition bindp :: "'a prog \<Rightarrow> ('a \<Rightarrow> 'b prog) \<Rightarrow> 'b prog" where
  "bindp m f = (\<lambda>w. case m w of (Inl e, w') \<Rightarrow> (Inl e, w') | (Inr x, w') \<Rightarrow> f x w')"

definition emit :: "event \<Rightarrow> unit prog" where
  "emit ev = (\<lambda>w. (Inr (), w\<lparr>trace := trace w @ [ev]\<rparr>))"

text \<open>\<open>try: m except EasyBuildError as err: h(err)\<close>: other exceptions pass through.\<close>

definition catch_eb :: "'a prog \<Rightarrow> (string \<Rightarrow> 'a prog) \<Rightarrow> 'a prog" where
  "catch_eb m h =
     (\<lambda>w. case m w of (Inl (EasyBuildError msg), w') \<Rightarrow> h msg w' | r \<Rightarrow> r)"

definition print_msg :: "string \<Rightarrow> unit prog" where
  "print_msg msg = emit (PrintMsg msg)"

definition print_warning :: "string \<Rightarrow> unit prog" where
  "print_warning msg = emit (PrintWarning msg)"

section \<open>Pull-request records\<close>

record comment =
  c_body :: string
  c_updated_at :: string
  c_user_login :: string

record review =
  r_state :: string
  r_body :: string
  r_submitted_at :: string
  r_user_login :: string

text \<open>
  The record of a pull request as the forge returns it. The last four fields are the ones
  \<open>fetch_pr_data\<close> adds with \<open>full=True\<close>; the milestone is \<open>None\<close> or carries a title.
\<close>

record pr_data =
  pr_number :: nat
  pr_title :: string
  pr_state :: string
  pr_merged :: bool
  pr_user_login :: string
  pr_updated_at :: string
  pr_base_ref :: string
  pr_base_repo_owner :: string
  pr_base_repo_name :: string
  pr_head_label :: string
  pr_head_sha :: string
  pr_diff_url :: string
  pr_milestone :: "string option"
  pr_status_last_commit :: string
  pr_issue_comments :: "comment list"
  pr_reviews :: "review list"

section \<open>Recipe records\<close>

text \<open>What \<open>EasyConfigParser(path).get_config_dict()\<close> returns, as far as the module reads
  it: \<open>easyblock\<close> and \<open>versionsuffix\<close> may be missing from the dictionary.\<close>

record ec_dict =
  ec_name :: string
  ec_version :: string
  ec_toolchain_name :: string
  ec_toolchain_version :: string
  ec_easyblock :: "string option"
  ec_versionsuffix :: "string option"

text \<open>An entry of \<open>patches\<close> is a file name, or a tuple or list whose first element is the
  file name. An entry of \<open>exts_list\<close> is a name, a pair, or a triple whose third element is
  a dictionary of options that may have the key \<open>patches\<close>.\<close>

datatype patch = PatchFile string | PatchTuple string "string list"

datatype ext =
    ExtName string
  | ExtPair string string
  | ExtTriple string string "patch list option"

record easyconfig =
  e_name :: string
  e_version :: string
  e_spec :: string
  e_patches :: "patch list"
  e_exts_list :: "ext list"

text \<open>The dictionary \<open>copy_easyconfigs\<close> and \<open>copy_patch_files\<close> return.\<close>

record file_info =
  fi_ecs :: "easyconfig list"
  fi_paths_in_repo :: "string list"
  fi_new :: "bool list"

section \<open>The environment\<close>

text \<open>
  Everything the module gets from its collaborators is a field of the environment: the
  build options, and for each external operation what it answers in a given world. The
  operations themselves are not in this module (the REST client, the keyring, the file and
  archive utilities, the recipe reader, GitPython, the clock and the random generator), so
  the properties below hold for every environment. The interpreter is a collaborator too:
  \<open>str_isspace\<close> is the white space \<open>str.rstrip()\<close> strips and \<open>regex_whitespace\<close> the
  class \<open>\s\<close> of the regular expressions, which Python 2 and Python 3 define differently
  (in Python 3 the separators \<open>\x1c\<close> to \<open>\x1f\<close>, \<open>\x85\<close> and \<open>\xa0\<close> belong to both). A query of the file system (listing,
  walking, globbing, resolving a path, reading a recipe) depends on the file system only; every
  other answer may depend on the whole world, the events so far included.
\<close>

record env =
  opt_github_user :: "string option"
  opt_github_org :: "string option"
  opt_pr_path :: "string option"
  opt_pr_target_account :: string
  opt_pr_target_repo :: string
  opt_pr_target_branch :: string
  opt_pr_branch_name :: "string option"
  opt_robot_path :: "string list"
  opt_dry_run :: bool
  opt_extended_dry_run :: bool
  opt_force :: bool
  opt_git_working_dirs_path :: "string option"
  keyring_get_password :: "string \<Rightarrow> world \<Rightarrow> string option"
  api_branches :: "string \<Rightarrow> string \<Rightarrow> world \<Rightarrow> nat \<times> (string \<times> string) list \<times> string"
  api_pull :: "string \<Rightarrow> string \<Rightarrow> nat \<Rightarrow> world \<Rightarrow> nat \<times> pr_data \<times> string"
  api_commit_status :: "string \<Rightarrow> string \<Rightarrow> string \<Rightarrow> world \<Rightarrow> nat \<times> string \<times> string"
  api_issue_comments :: "string \<Rightarrow> string \<Rightarrow> nat \<Rightarrow> world \<Rightarrow> nat \<times> comment list \<times> string"
  api_reviews :: "string \<Rightarrow> string \<Rightarrow> nat \<Rightarrow> world \<Rightarrow> nat \<times> review list \<times> string"
  api_post :: "string list \<Rightarrow> (string \<times> string) list \<Rightarrow> world \<Rightarrow> nat \<times> string"
  api_put :: "string list \<Rightarrow> (string \<times> string) list \<Rightarrow> world \<Rightarrow> nat \<times> string option"
  fs_effect :: "event \<Rightarrow> world \<Rightarrow> filesystem"
  mkdtemp_name :: "string \<Rightarrow> world \<Rightarrow> string"
  download_file_result :: "string \<Rightarrow> string \<Rightarrow> string \<Rightarrow> world \<Rightarrow> error + string option"
  extract_file_result :: "string \<Rightarrow> string \<Rightarrow> world \<Rightarrow> error + string"
  apply_patch_result :: "string \<Rightarrow> string \<Rightarrow> world \<Rightarrow> error + unit"
  symlink_result :: "string \<Rightarrow> string \<Rightarrow> world \<Rightarrow> error + unit"
  det_patched_files :: "string \<Rightarrow> string list"
  os_listdir :: "string \<Rightarrow> filesystem \<Rightarrow> error + string list"
  os_walk :: "string \<Rightarrow> filesystem \<Rightarrow> (string \<times> string list) list"
  glob_glob :: "string \<Rightarrow> filesystem \<Rightarrow> string list"
  os_path_realpath :: "string \<Rightarrow> filesystem \<Rightarrow> string"
  os_path_abspath :: "string \<Rightarrow> filesystem \<Rightarrow> string"
  datetime_now :: "world \<Rightarrow> int"
  datetime_strptime :: "string \<Rightarrow> int option"
  time_strftime :: "world \<Rightarrow> string"
  random_letters :: "nat \<Rightarrow> world \<Rightarrow> string"
  py_int :: "string \<Rightarrow> int option"
  str_isspace :: "char \<Rightarrow> bool"
  regex_whitespace :: "char \<Rightarrow> bool"
  get_config_dict :: "string \<Rightarrow> filesystem \<Rightarrow> error + ec_dict"
  process_easyconfig :: "string \<Rightarrow> filesystem \<Rightarrow> error + easyconfig list"
  loose_version_gt :: "string \<Rightarrow> string \<Rightarrow> bool"
  copy_easyconfigs_result :: "string list \<Rightarrow> string \<Rightarrow> world \<Rightarrow> error + file_info"
  copy_patch_files_result :: "(string \<times> string) list \<Rightarrow> string \<Rightarrow> world \<Rightarrow> error + file_info"
  git_result :: "gitcmd \<Rightarrow> world \<Rightarrow> string + string"
  git_query :: "gitcmd \<Rightarrow> world \<Rightarrow> bool"
  git_infos :: "gitcmd \<Rightarrow> world \<Rightarrow> string + (bool \<times> string) list"

text \<open>Reading the world, and asking the environment for an answer that may be an error.\<close>

definition gets :: "(world \<Rightarrow> 'a) \<Rightarrow> 'a prog" where
  "gets f = (\<lambda>w. (Inr (f w), w))"

definition answer :: "(world \<Rightarrow> error + 'a) \<Rightarrow> 'a prog" where
  "answer f = (\<lambda>w. (f w, w))"

text \<open>The same for a query of the file system.\<close>

definition query :: "(filesystem \<Rightarrow> 'a) \<Rightarrow> 'a prog" where
  "query f = (\<lambda>w. (Inr (f (fs_of w)), w))"

definition query_answer :: "(filesystem \<Rightarrow> error + 'a) \<Rightarrow> 'a prog" where
  "query_answer f = (\<lambda>w. (f (fs_of w), w))"

text \<open>An external operation that may change the file system: the event is recorded and the
  files and directories become what the environment says.\<close>

definition external :: "env \<Rightarrow> event \<Rightarrow> unit prog" where
  "external env ev =
     (\<lambda>w. (Inr (), w\<lparr>files := fst (fs_effect env ev w),
                       dirs := snd (fs_effect env ev w),
                       trace := trace w @ [ev]\<rparr>))"

section \<open>Eligibility for merging\<close>

text \<open>The helper \<open>not_eligible\<close> of \<open>check_pr_eligible_to_merge\<close>: warns on stderr, returns
  \<open>False\<close>.\<close>

definition not_eligible :: "string \<Rightarrow> bool prog" where
  "not_eligible msg =
     bindp (emit (PrintStderr (msg @ '' => not eligible for merging!''))) (\<lambda>_. ret False)"

text \<open>\<open>re.compile(r"^Test report by @\S+").search(comment)\<close>: without the multi-line flag the
  pattern matches at the start of the text only, and \<open>\S\<close> is a character outside the class
  \<open>\s\<close> of the interpreter.\<close>

definition test_report_regex_search :: "env \<Rightarrow> string \<Rightarrow> bool" where
  "test_report_regex_search env txt =
     (prefix ''Test report by @'' txt \<and>
      (case drop (length ''Test report by @'') txt of
         [] \<Rightarrow> False
       | c # _ \<Rightarrow> \<not> regex_whitespace env c))"

text \<open>The loop over \<open>pr_data['issue_comments'][::-1]\<close>, given the bodies newest first. It
  returns \<open>res\<close> and \<open>test_report_found\<close>.\<close>

fun scan_test_reports :: "env \<Rightarrow> string list \<Rightarrow> bool \<Rightarrow> (bool \<times> bool) prog" where
  "scan_test_reports env [] res = ret (res, False)"
| "scan_test_reports env (c # cs) res =
     (if test_report_regex_search env c then
        (if sublist ''SUCCESS'' c then
           bindp (print_msg ''* last test report is successful: OK'') (\<lambda>_. ret (res, True))
         else if sublist ''FAILED'' c then
           bindp (not_eligible ''* last test report is successful: FAILED'')
             (\<lambda>res'. ret (res', True))
         else
           bindp (print_warning
                    (''Failed to determine outcome of test report for comment:'' @ [newline] @ c))
             (\<lambda>_. scan_test_reports env cs res))
      else scan_test_reports env cs res)"

definition check_pr_eligible_to_merge :: "env \<Rightarrow> pr_data \<Rightarrow> bool prog" where
  "check_pr_eligible_to_merge env pr =
     (let res = True;
          target = pr_base_repo_owner pr @ ''/'' @ pr_base_repo_name pr
      in
      bindp (print_msg (''Checking eligibility of '' @ target @ '' PR #'' @
                        str_nat (pr_number pr) @ '' for merging...'')) (\<lambda>_.
      \<comment> \<open>check target branch, must be 'develop'\<close>
      bindp (if pr_base_ref pr = ''develop''
             then bindp (print_msg ''* targets develop branch: OK'') (\<lambda>_. ret res)
             else not_eligible (''* targets develop branch: FAILED; found '' @ squote
                                @ pr_base_ref pr @ squote)) (\<lambda>res.
      \<comment> \<open>check test suite result\<close>
      bindp (if pr_status_last_commit pr = ''success''
             then bindp (print_msg ''* test suite passes: OK'') (\<lambda>_. ret res)
             else if pr_status_last_commit pr = ''pending''
             then not_eligible ''* test suite passes: pending...''
             else if pr_status_last_commit pr \<in> set [''error'', ''failure'']
             then not_eligible ''* test suite passes: FAILED''
             else not_eligible ''* test suite passes: (result unknown)'') (\<lambda>res.
      \<comment> \<open>check for successful test report (checked in reverse order)\<close>
      bindp (if pr_base_repo_name pr = GITHUB_EASYCONFIGS_REPO
             then bindp (scan_test_reports env (rev (map c_body (pr_issue_comments pr))) res)
                    (\<lambda>(res, test_report_found).
                       if \<not> test_report_found
                       then not_eligible
                              ''* last test report is successful: (no test reports found)''
                       else ret res)
             else ret res) (\<lambda>res.
      \<comment> \<open>check for approved review\<close>
      (let approved_review_by =
             map r_user_login (filter (\<lambda>r. r_state r = ''APPROVED'') (pr_reviews pr))
       in
       bindp (if approved_review_by \<noteq> []
              then bindp (print_msg (''* approved review: OK (by '' @
                                     join_with '', '' approved_review_by @ '')''))
                     (\<lambda>_. ret res)
              else not_eligible ''* approved review: MISSING'') (\<lambda>res.
       \<comment> \<open>check whether a milestone is set\<close>
       (case pr_milestone pr of
          Some title \<Rightarrow>
            bindp (print_msg (''* milestone is set: OK ('' @ title @ '')'')) (\<lambda>_. ret res)
        | None \<Rightarrow> not_eligible ''* milestone is set: no milestone found''))))))))"

section \<open>File primitives\<close>

text \<open>
  Modelled from the spec: the read, write and directory primitives of the file utilities
  (\<open>easybuild.tools.filetools\<close>, not among the sources) and \<open>os.path.exists\<close>,
  \<open>os.path.isdir\<close>, \<open>tempfile.mkdtemp\<close>. A written file is read back as written; reading
  a path that is not a regular file raises.
\<close>

definition os_path_exists :: "string \<Rightarrow> world \<Rightarrow> bool" where
  "os_path_exists p w = (files w p \<noteq> None \<or> p \<in> dirs w)"

definition os_path_isdir :: "string \<Rightarrow> world \<Rightarrow> bool" where
  "os_path_isdir p w = (p \<in> dirs w)"

definition read_file :: "string \<Rightarrow> string prog" where
  "read_file p =
     (\<lambda>w. case files w p of
             None \<Rightarrow> (Inl (EasyBuildError (''Failed to read '' @ p)), w)
           | Some txt \<Rightarrow> (Inr txt, w))"

definition write_file :: "string \<Rightarrow> string \<Rightarrow> unit prog" where
  "write_file p txt =
     (\<lambda>w. (Inr (), w\<lparr>files := (files w)(p \<mapsto> txt), trace := trace w @ [WriteFile p txt]\<rparr>))"

text \<open>The directories \<open>mkdir(path, parents=True)\<close> makes sure exist.\<close>

definition path_and_parents :: "string \<Rightarrow> string list" where
  "path_and_parents p =
     filter (\<lambda>d. d \<noteq> []) (map (join_with ''/'') (prefixes (split_on CHR ''/'' p)))"

definition mkdir :: "string \<Rightarrow> unit prog" where
  "mkdir p =
     (\<lambda>w. (Inr (), w\<lparr>dirs := dirs w \<union> set (path_and_parents p),
                       trace := trace w @ [Mkdir p]\<rparr>))"

definition mkdtemp :: "env \<Rightarrow> string \<Rightarrow> string prog" where
  "mkdtemp env pre =
     (\<lambda>w. let d = mkdtemp_name env pre w
           in (Inr d, w\<lparr>dirs := insert d (dirs w), trace := trace w @ [Mkdtemp d]\<rparr>))"

section \<open>External file and archive utilities\<close>

definition download_file :: "env \<Rightarrow> string \<Rightarrow> string \<Rightarrow> string \<Rightarrow> string option prog" where
  "download_file env fn url path =
     bindp (external env (DownloadFile fn url path))
       (\<lambda>_. answer (download_file_result env fn url path))"

definition extract_file :: "env \<Rightarrow> string \<Rightarrow> string \<Rightarrow> string prog" where
  "extract_file env fn dest =
     bindp (external env (ExtractFile fn dest)) (\<lambda>_. answer (extract_file_result env fn dest))"

definition apply_patch :: "env \<Rightarrow> string \<Rightarrow> string \<Rightarrow> unit prog" where
  "apply_patch env patch_file dest =
     bindp (external env (ApplyPatch patch_file dest))
       (\<lambda>_. answer (apply_patch_result env patch_file dest))"

definition symlink :: "env \<Rightarrow> string \<Rightarrow> string \<Rightarrow> unit prog" where
  "symlink env source_path symlink_path =
     bindp (external env (Symlink source_path symlink_path))
       (\<lambda>_. answer (symlink_result env source_path symlink_path))"

section \<open>Requests to the forge\<close>

text \<open>\<open>fetch_github_token(user)\<close>: the token from the keyring, \<open>None\<close> when there is no user
  or no token.\<close>

definition fetch_github_token :: "env \<Rightarrow> string option \<Rightarrow> string option prog" where
  "fetch_github_token env user =
     bindp (emit (FetchToken user))
       (\<lambda>_. gets (\<lambda>w. case user of None \<Rightarrow> None | Some u \<Rightarrow> keyring_get_password env u w))"

text \<open>\<open>github_api_get_request\<close> sends a GET request to the endpoint given by its path. The
  answer (status code, decoded data, and the data as text for messages) is read from the
  environment by the caller, which knows the type of the data.\<close>

definition github_api_get_request :: "env \<Rightarrow> string list \<Rightarrow> string option \<Rightarrow> unit prog" where
  "github_api_get_request env url github_user =
     (let github_user = (case github_user of None \<Rightarrow> opt_github_user env | Some u \<Rightarrow> Some u)
      in bindp (fetch_github_token env github_user) (\<lambda>token. emit (ApiGet url)))"

text \<open>The loop of \<open>fetch_latest_commit_sha\<close> over the branches, each a name and the SHA of its
  commit.\<close>

fun find_branch_sha :: "(string \<times> string) list \<Rightarrow> string \<Rightarrow> string option" where
  "find_branch_sha [] branch = None"
| "find_branch_sha (entry # entries) branch =
     (if fst entry = branch then Some (snd entry) else find_branch_sha entries branch)"

definition fetch_latest_commit_sha ::
  "env \<Rightarrow> string \<Rightarrow> string \<Rightarrow> string \<Rightarrow> string option \<Rightarrow> string prog" where
  "fetch_latest_commit_sha env repo account branch github_user =
     bindp (github_api_get_request env [''repos'', account, repo, ''branches''] github_user) (\<lambda>_.
     bindp (gets (api_branches env account repo)) (\<lambda>(status, data, txt).
     if status \<noteq> HTTP_STATUS_OK then
       raise (EasyBuildError (''Failed to get latest commit sha for branch '' @ branch @ '' '' @
                ''from '' @ account @ ''/'' @ repo @ '' (status: '' @ str_nat status @ '' '' @
                txt @ '')''))
     else
       (case find_branch_sha data branch of
          Some res \<Rightarrow> ret res
        | None \<Rightarrow>
            (let error_msg = ''No branch with name '' @ branch @ '' found in repo '' @ account @
                               ''/'' @ repo;
                 error_msg = (if length data \<ge> GITHUB_MAX_PER_PAGE
                              then error_msg @ ''; only '' @ str_nat (length data) @
                                   '' branches were checked (too many branches in '' @ account @
                                   ''/'' @ repo @ ''?)''
                              else error_msg)
             in raise (EasyBuildError (error_msg @ '': '' @ join_with '', '' (map fst data)))))))"

text \<open>The first line of the marker file, trailing white space removed:
  \<open>read_file(latest_sha_path).split('\n')[0].rstrip()\<close>.\<close>

definition first_line_rstrip :: "env \<Rightarrow> string \<Rightarrow> string" where
  "first_line_rstrip env txt =
     rstrip (str_isspace env) (case split_on newline txt of [] \<Rightarrow> [] | l # _ \<Rightarrow> l)"

definition download_repo ::
  "env \<Rightarrow> string \<Rightarrow> string \<Rightarrow> string \<Rightarrow> string option \<Rightarrow> string option \<Rightarrow> string prog" where
  "download_repo env repo branch account path github_user =
     \<comment> \<open>make sure path exists, create it if necessary\<close>
     bindp (case path of None \<Rightarrow> mkdtemp env [] | Some p \<Rightarrow> ret p) (\<lambda>path.
     \<comment> \<open>add account subdir\<close>
     (let path = os_path_join path account in
      bindp (mkdir path) (\<lambda>_.
      (let extracted_dir_name = repo @ ''-'' @ branch;
           base_name = branch @ ''.tar.gz''
       in
       bindp (fetch_latest_commit_sha env repo account branch github_user) (\<lambda>latest_commit_sha.
       (let expected_path = os_path_join path extracted_dir_name;
            latest_sha_path = os_path_join expected_path ''latest-sha''
        in
        \<comment> \<open>don't download if the 'latest-sha' file indicates that it's up to date\<close>
        bindp (gets (os_path_exists latest_sha_path)) (\<lambda>marker_exists.
        bindp (if marker_exists
               then bindp (read_file latest_sha_path)
                      (\<lambda>txt. ret (latest_commit_sha = first_line_rstrip env txt))
               else ret False) (\<lambda>up_to_date.
        if up_to_date then ret expected_path
        else
          (let url = join_with URL_SEPARATOR [GITHUB_URL, account, repo, ''archive'', base_name];
               target_path = os_path_join path base_name
           in
           bindp (download_file env base_name url target_path) (\<lambda>_.
           bindp (extract_file env target_path path) (\<lambda>extracted.
           (let extracted_path = os_path_join extracted extracted_dir_name in
            \<comment> \<open>check if extracted_path exists\<close>
            bindp (gets (os_path_isdir extracted_path)) (\<lambda>is_dir.
            if \<not> is_dir then
              raise (EasyBuildError (extracted_path @ '' should exist and contain the repo '' @
                       repo @ '' at branch '' @ branch))
            else
              bindp (write_file latest_sha_path latest_commit_sha)
                (\<lambda>_. ret extracted_path))))))))))))))"

text \<open>\<open>fetch_pr_data\<close> for one pull request; it returns the record (the URL object it also
  returns is not modelled). With \<open>full\<close> the status of the last commit, the comments and the
  reviews are fetched too.\<close>

definition fetch_pr_data ::
  "env \<Rightarrow> nat \<Rightarrow> string \<Rightarrow> string \<Rightarrow> string option \<Rightarrow> bool \<Rightarrow> pr_data prog" where
  "fetch_pr_data env pr pr_target_account pr_target_repo github_user full =
     (let failed = (\<lambda>what status txt.
            EasyBuildError (''Failed to get '' @ what @ '' for PR #'' @ str_nat pr @ '' from '' @
              pr_target_account @ ''/'' @ pr_target_repo @ '' (status: '' @ str_nat status @
              '' '' @ txt @ '')''));
          repo_url = [''repos'', pr_target_account, pr_target_repo]
      in
      bindp (github_api_get_request env (repo_url @ [''pulls'', str_nat pr]) github_user) (\<lambda>_.
      bindp (gets (api_pull env pr_target_account pr_target_repo pr)) (\<lambda>(status, pr_data, txt).
      if status \<noteq> HTTP_STATUS_OK then raise (failed ''data'' status txt)
      else if \<not> full then ret pr_data
      else
        \<comment> \<open>also fetch status of last commit\<close>
        bindp (github_api_get_request env
                 (repo_url @ [''commits'', pr_head_sha pr_data, ''status'']) github_user) (\<lambda>_.
        bindp (gets (api_commit_status env pr_target_account pr_target_repo
                       (pr_head_sha pr_data))) (\<lambda>(status, status_data, txt).
        if status \<noteq> HTTP_STATUS_OK then raise (failed ''status of last commit'' status txt)
        else
          (let pr_data = pr_data\<lparr>pr_status_last_commit := status_data\<rparr> in
           \<comment> \<open>also fetch comments\<close>
           bindp (github_api_get_request env
                    (repo_url @ [''issues'', str_nat pr, ''comments'']) github_user) (\<lambda>_.
           bindp (gets (api_issue_comments env pr_target_account pr_target_repo pr))
             (\<lambda>(status, comments_data, txt).
           if status \<noteq> HTTP_STATUS_OK then raise (failed ''comments'' status txt)
           else
             (let pr_data = pr_data\<lparr>pr_issue_comments := comments_data\<rparr> in
              \<comment> \<open>also fetch reviews\<close>
              bindp (github_api_get_request env
                       (repo_url @ [''pulls'', str_nat pr, ''reviews'']) github_user) (\<lambda>_.
              bindp (gets (api_reviews env pr_target_account pr_target_repo pr))
                (\<lambda>(status, reviews_data, txt).
              if status \<noteq> HTTP_STATUS_OK then raise (failed ''reviews'' status txt)
              else ret (pr_data\<lparr>pr_reviews := reviews_data\<rparr>))))))))))))"

section \<open>The files of a pull request\<close>

text \<open>The loop that downloads each patched file at the head commit of the pull request
  (lines 434 to 440).\<close>

fun download_patched_files ::
  "env \<Rightarrow> string \<Rightarrow> string \<Rightarrow> string \<Rightarrow> string \<Rightarrow> string list \<Rightarrow> unit prog" where
  "download_patched_files env github_account github_repo sha path [] = ret ()"
| "download_patched_files env github_account github_repo sha path (patched_file # rest) =
     (let fn = last3 patched_file;
          full_url = join_with URL_SEPARATOR
                       [GITHUB_RAW, github_account, github_repo, sha, patched_file]
      in
      bindp (download_file env fn full_url (os_path_join path fn))
        (\<lambda>_. download_patched_files env github_account github_repo sha path rest))"

text \<open>Lines 411 to 442 of \<open>fetch_easyconfigs_from_pr\<close>: the directory the files of the pull
  request are taken from. \<open>final_path\<close> starts as \<open>None\<close>.\<close>

definition pr_final_path ::
  "env \<Rightarrow> nat \<Rightarrow> pr_data \<Rightarrow> string \<Rightarrow> string \<Rightarrow> string \<Rightarrow> string list \<Rightarrow> string prog" where
  "pr_final_path env pr pr_data path repo_target_branch diff_filepath patched_files =
     (let github_account = opt_pr_target_account env;
          github_repo = GITHUB_EASYCONFIGS_REPO;
          merged = pr_merged pr_data;
          pr_closed = (pr_state pr_data = GITHUB_STATE_CLOSED \<and> \<not> merged)
      in
      \<comment> \<open>try to apply PR patch on top of target branch, unless the PR is closed or already
          merged\<close>
      bindp (if merged then ret (Some repo_target_branch)
             else if \<not> pr_closed then
               catch_eb (bindp (apply_patch env diff_filepath repo_target_branch)
                           (\<lambda>_. ret (Some repo_target_branch)))
                        (\<lambda>err. ret None)
             else ret None) (\<lambda>final_path.
      (case final_path of
         Some p \<Rightarrow> ret p
       | None \<Rightarrow>
           bindp (if pr_closed
                  then print_warning (''Using easyconfigs from closed PR #'' @ str_nat pr)
                  else ret ()) (\<lambda>_.
           \<comment> \<open>obtain most recent version of patched files\<close>
           bindp (download_patched_files env github_account github_repo (pr_head_sha pr_data)
                    path patched_files) (\<lambda>_.
           ret path)))))"

text \<open>Lines 444 to 448: symlink directories into the expected place.\<close>

fun symlink_dirs :: "env \<Rightarrow> string \<Rightarrow> string \<Rightarrow> string list \<Rightarrow> unit prog" where
  "symlink_dirs env dirpath path [] = ret ()"
| "symlink_dirs env dirpath path (eb_dir # rest) =
     bindp (symlink env (os_path_join dirpath eb_dir) (os_path_join path (basename eb_dir)))
       (\<lambda>_. symlink_dirs env dirpath path rest)"

text \<open>Lines 450 to 460, the sanity check: the loop over the patched files that are not under
  \<open>test/\<close>, with the list \<open>ec_files\<close> collected so far.\<close>

fun check_patched_files :: "string \<Rightarrow> string list \<Rightarrow> string list \<Rightarrow> string list prog" where
  "check_patched_files path [] ec_files = ret ec_files"
| "check_patched_files path (patched_file # rest) ec_files =
     (let fn = last3 patched_file;
          full_path = os_path_join path fn
      in
      bindp (gets (os_path_exists full_path)) (\<lambda>found.
      if found then check_patched_files path rest (ec_files @ [full_path])
      else raise (EasyBuildError (''Couldn't find path to patched file '' @ full_path))))"

definition sanity_check_patched_files :: "string \<Rightarrow> string list \<Rightarrow> string list prog" where
  "sanity_check_patched_files path patched_files =
     check_patched_files path (filter (\<lambda>f. \<not> prefix ''test/'' f) patched_files) []"

definition fetch_easyconfigs_from_pr ::
  "env \<Rightarrow> nat \<Rightarrow> string option \<Rightarrow> string option \<Rightarrow> string list prog" where
  "fetch_easyconfigs_from_pr env pr path github_user =
     (let github_user = (case github_user of None \<Rightarrow> opt_github_user env | Some u \<Rightarrow> Some u);
          path = (case path of None \<Rightarrow> opt_pr_path env | Some p \<Rightarrow> Some p)
      in
      bindp (case path of
               None \<Rightarrow> mkdtemp env []
             | Some p \<Rightarrow> bindp (mkdir p) (\<lambda>_. ret p)) (\<lambda>path.
      (let github_account = opt_pr_target_account env;
           github_repo = GITHUB_EASYCONFIGS_REPO
       in
       bindp (fetch_pr_data env pr github_account github_repo github_user False) (\<lambda>pr_data.
       (let pr_target_branch = pr_base_ref pr_data in
        \<comment> \<open>download target branch of PR so we can try and apply the PR patch on top of it\<close>
        bindp (download_repo env github_repo pr_target_branch github_account None github_user)
          (\<lambda>repo_target_branch.
        \<comment> \<open>determine list of changed files via diff\<close>
        (let diff_fn = basename (pr_diff_url pr_data);
             diff_filepath = os_path_join path diff_fn
         in
         bindp (download_file env diff_fn (pr_diff_url pr_data) diff_filepath) (\<lambda>_.
         bindp (read_file diff_filepath) (\<lambda>diff_txt.
         (let patched_files = det_patched_files env diff_txt in
          bindp (pr_final_path env pr pr_data path repo_target_branch diff_filepath
                   patched_files) (\<lambda>final_path.
          \<comment> \<open>symlink directories into expected place if they're not there yet\<close>
          bindp (if final_path \<noteq> path then
                   (let dirpath = os_path_join (os_path_join final_path ''easybuild'')
                                    ''easyconfigs''
                    in bindp (query_answer (os_listdir env dirpath))
                         (\<lambda>eb_dirs. symlink_dirs env dirpath path eb_dirs))
                 else ret ()) (\<lambda>_.
          \<comment> \<open>sanity check: make sure all patched files are downloaded\<close>
          sanity_check_patched_files path patched_files))))))))))))"

section \<open>Reasons for closing a pull request\<close>

text \<open>\<open>EASYCONFIGS_ARCHIVE_DIR\<close> is imported from the easyconfig module, where it names the
  archive directory of a tree of easyconfigs.\<close>

definition EASYCONFIGS_ARCHIVE_DIR :: string where
  "EASYCONFIGS_ARCHIVE_DIR = ''__archive__''"

text \<open>\<open>stamp.replace('T', ' at ')[:-1]\<close>.\<close>

definition at_timestamp :: "string \<Rightarrow> string" where
  "at_timestamp stamp = butlast (replace_char CHR ''T'' '' at '' stamp)"

text \<open>The inner loops of lines 1095 to 1106 (the archived toolchains): over the file names of
  one directory, and over what \<open>os.walk\<close> yields. \<open>uses_archived_tc\<close> is threaded through.\<close>

fun archived_tc_files ::
  "env \<Rightarrow> ec_dict \<Rightarrow> string \<Rightarrow> string \<Rightarrow> string list \<Rightarrow> ec_dict list \<Rightarrow> ec_dict list prog" where
  "archived_tc_files env pr_ec pr_tc dirpath [] uses_archived_tc = ret uses_archived_tc"
| "archived_tc_files env pr_ec pr_tc dirpath (fn # fns) uses_archived_tc =
     (if suffix ''.eb'' fn then
        bindp (query_answer (get_config_dict env (os_path_join dirpath fn))) (\<lambda>ec.
        if ec_easyblock ec = Some ''Toolchain'' then
          (let archived_tc =
                 (case ec_versionsuffix ec of
                    Some versionsuffix \<Rightarrow> ec_name ec @ ''-'' @ ec_version ec @ versionsuffix
                  | None \<Rightarrow> ec_name ec @ ''-'' @ ec_version ec)
           in
           if pr_tc = archived_tc then
             bindp (print_msg ('' - uses archived toolchain '' @ pr_tc)) (\<lambda>_.
             archived_tc_files env pr_ec pr_tc dirpath fns (uses_archived_tc @ [pr_ec]))
           else archived_tc_files env pr_ec pr_tc dirpath fns uses_archived_tc)
        else archived_tc_files env pr_ec pr_tc dirpath fns uses_archived_tc)
      else archived_tc_files env pr_ec pr_tc dirpath fns uses_archived_tc)"

fun archived_tc_walk ::
  "env \<Rightarrow> ec_dict \<Rightarrow> string \<Rightarrow> (string \<times> string list) list \<Rightarrow> ec_dict list \<Rightarrow>
   ec_dict list prog" where
  "archived_tc_walk env pr_ec pr_tc [] uses_archived_tc = ret uses_archived_tc"
| "archived_tc_walk env pr_ec pr_tc ((dirpath, filenames) # rest) uses_archived_tc =
     bindp (archived_tc_files env pr_ec pr_tc dirpath filenames uses_archived_tc)
       (archived_tc_walk env pr_ec pr_tc rest)"

text \<open>The inner loops of lines 1109 to 1115 (newer versions). The set \<open>newer_versions\<close> is a
  list without repetitions.\<close>

fun newer_version_files ::
  "env \<Rightarrow> ec_dict \<Rightarrow> string \<Rightarrow> string list \<Rightarrow> string list \<Rightarrow> string list prog" where
  "newer_version_files env pr_ec dirpath [] newer_versions = ret newer_versions"
| "newer_version_files env pr_ec dirpath (fn # fns) newer_versions =
     (if suffix ''.eb'' fn then
        bindp (query_answer (get_config_dict env (os_path_join dirpath fn))) (\<lambda>ec.
        if loose_version_gt env (ec_version ec) (ec_version pr_ec)
        then newer_version_files env pr_ec dirpath fns (List.insert (ec_version ec) newer_versions)
        else newer_version_files env pr_ec dirpath fns newer_versions)
      else newer_version_files env pr_ec dirpath fns newer_versions)"

fun newer_version_walk ::
  "env \<Rightarrow> ec_dict \<Rightarrow> (string \<times> string list) list \<Rightarrow> string list \<Rightarrow> string list prog" where
  "newer_version_walk env pr_ec [] newer_versions = ret newer_versions"
| "newer_version_walk env pr_ec ((dirpath, filenames) # rest) newer_versions =
     bindp (newer_version_files env pr_ec dirpath filenames newer_versions)
       (newer_version_walk env pr_ec rest)"

text \<open>The loop over the robot paths (lines 1092 to 1119) for one easyconfig of the pull
  request, with \<open>uses_archived_tc\<close> and \<open>obsoleted\<close> threaded through. \<open>pr_tc\<close> holds a
  hyphen and a split is never the empty list, so \<open>pr_tc[0]\<close> and \<open>pr_tc.split('-')[0]\<close> are
  the heads; \<open>pr_ec['name'].lower()[0]\<close> raises for an empty name.\<close>

fun closing_robot_paths ::
  "env \<Rightarrow> ec_dict \<Rightarrow> string \<Rightarrow> string list \<Rightarrow> ec_dict list \<times> ec_dict list \<Rightarrow>
   (ec_dict list \<times> ec_dict list) prog" where
  "closing_robot_paths env pr_ec pr_tc [] acc = ret acc"
| "closing_robot_paths env pr_ec pr_tc (robot_path # rest) (uses_archived_tc, obsoleted) =
     \<comment> \<open>check if PR easyconfig uses an archived toolchain\<close>
     (let path = os_path_join (os_path_join (os_path_join robot_path EASYCONFIGS_ARCHIVE_DIR)
                                 [lower_char (hd pr_tc)])
                   (hd (split_on CHR ''-'' pr_tc))
      in
      bindp (query (os_walk env path)) (\<lambda>entries.
      bindp (archived_tc_walk env pr_ec pr_tc entries uses_archived_tc) (\<lambda>uses_archived_tc.
      \<comment> \<open>check if there is a newer version of PR easyconfig\<close>
      (case ec_name pr_ec of
         [] \<Rightarrow> raise (PyError ''IndexError'')
       | c # _ \<Rightarrow>
           bindp (query (os_walk env
                          (os_path_join (os_path_join robot_path [lower_char c])
                             (ec_name pr_ec)))) (\<lambda>entries.
           bindp (newer_version_walk env pr_ec entries []) (\<lambda>newer_versions.
           if newer_versions \<noteq> [] then
             bindp (print_msg ('' - found newer versions '' @
                               join_with '', '' (sort newer_versions))) (\<lambda>_.
             closing_robot_paths env pr_ec pr_tc rest (uses_archived_tc, obsoleted @ [pr_ec]))
           else closing_robot_paths env pr_ec pr_tc rest (uses_archived_tc, obsoleted)))))))"

text \<open>The loop over the easyconfig files of the pull request (lines 1088 to 1119).\<close>

fun closing_pr_files ::
  "env \<Rightarrow> string list \<Rightarrow> ec_dict list \<times> ec_dict list \<Rightarrow> (ec_dict list \<times> ec_dict list) prog" where
  "closing_pr_files env [] acc = ret acc"
| "closing_pr_files env (pr_file # rest) acc =
     bindp (query_answer (get_config_dict env pr_file)) (\<lambda>pr_ec.
     (let pr_tc = ec_toolchain_name pr_ec @ ''-'' @ ec_toolchain_version pr_ec in
      bindp (print_msg (''* '' @ ec_name pr_ec @ ''-'' @ ec_version pr_ec)) (\<lambda>_.
      bindp (closing_robot_paths env pr_ec pr_tc (opt_robot_path env) acc)
        (closing_pr_files env rest))))"

definition reasons_for_closing :: "env \<Rightarrow> pr_data \<Rightarrow> string list prog" where
  "reasons_for_closing env pr_data =
     bindp (if pr_status_last_commit pr_data \<noteq> []
            then print_msg (''Status of last commit is '' @
                            map upper_char (pr_status_last_commit pr_data) @ [newline])
            else ret ()) (\<lambda>_.
     bindp (case rev (pr_issue_comments pr_data) of
              [] \<Rightarrow> ret ()
            | last_comment # _ \<Rightarrow>
                print_msg (''Last comment on '' @ at_timestamp (c_updated_at last_comment) @
                           '', by '' @ c_user_login last_comment @ '', was:'' @
                           [newline, newline] @ c_body last_comment)) (\<lambda>_.
     bindp (case rev (pr_reviews pr_data) of
              [] \<Rightarrow> ret ()
            | last_review # _ \<Rightarrow>
                print_msg (''Last reviewed on '' @ at_timestamp (r_submitted_at last_review) @
                           '' by '' @ r_user_login last_review @ '', state '' @
                           r_state last_review @ [newline, newline] @ r_body last_review)) (\<lambda>_.
     (let possible_reasons = [] in
      bindp (print_msg (''No activity since '' @ at_timestamp (pr_updated_at pr_data))) (\<lambda>_.
      \<comment> \<open>check if PR is inactive for more than 6 months\<close>
      (case datetime_strptime env (pr_updated_at pr_data) of
         None \<Rightarrow> raise (PyError ''ValueError'')
       | Some last_updated \<Rightarrow>
           bindp (gets (datetime_now env)) (\<lambda>now.
           (let possible_reasons =
                  (if now - last_updated > 180 * 86400 * 1000000
                   then possible_reasons @ [''inactive''] else possible_reasons)
            in
            bindp (fetch_easyconfigs_from_pr env (pr_number pr_data) None None) (\<lambda>paths.
            (let pr_files = filter (suffix ''.eb'') paths in
             bindp (closing_pr_files env pr_files ([], [])) (\<lambda>(uses_archived_tc, obsoleted).
             (let possible_reasons =
                    (if uses_archived_tc \<noteq> []
                     then possible_reasons @ [''archived''] else possible_reasons);
                  possible_reasons =
                    (if list_ex (\<lambda>e. sublist (ec_name e) (pr_title pr_data)) obsoleted
                     then possible_reasons @ [''obsolete''] else possible_reasons)
              in ret possible_reasons))))))))))))"

section \<open>Comments, closing and merging\<close>

text \<open>The argument \<open>issue\<close> of \<open>post_comment_in_issue\<close> is an integer or something to parse
  as one.\<close>

datatype issue_ref = IssueInt int | IssueStr string

definition str_int :: "int \<Rightarrow> string" where
  "str_int i = (if i < 0 then ''-'' @ str_nat (nat (- i)) else str_nat (nat i))"

definition dry_run_option :: "env \<Rightarrow> bool" where
  "dry_run_option env = (opt_dry_run env \<or> opt_extended_dry_run env)"

definition post_comment_in_issue ::
  "env \<Rightarrow> issue_ref \<Rightarrow> string \<Rightarrow> string \<Rightarrow> string \<Rightarrow> string option \<Rightarrow> unit prog" where
  "post_comment_in_issue env issue txt account repo github_user =
     bindp (case issue of
              IssueInt i \<Rightarrow> ret i
            | IssueStr s \<Rightarrow>
                (case py_int env s of
                   Some i \<Rightarrow> ret i
                 | None \<Rightarrow>
                     raise (EasyBuildError (''Failed to parse specified pull request number '' @
                              squote @ s @ squote @ '' as an int: ValueError; '')))) (\<lambda>issue.
     (let dry_run = dry_run_option env;
          msg = ''Adding comment to '' @ repo @ '' issue #'' @ str_int issue @ '': '' @
                squote @ txt @ squote;
          msg = (if dry_run then ''[DRY RUN] '' @ msg else msg)
      in
      bindp (print_msg msg) (\<lambda>_.
      if \<not> dry_run then
        bindp (fetch_github_token env github_user) (\<lambda>github_token.
        (let url = [''repos'', account, repo, ''issues'', str_int issue, ''comments''];
             body = [(''body'', txt)]
         in
         bindp (emit (ApiPost url body)) (\<lambda>_.
         bindp (gets (api_post env url body)) (\<lambda>(status, data).
         if \<not> status = HTTP_STATUS_CREATED then
           raise (EasyBuildError (''Failed to create comment in PR '' @ repo @ ''#'' @
                    str_int issue @ ''; status '' @ str_nat status @ '', data: '' @ data))
         else ret ()))))
      else ret ())))"

text \<open>\<open>VALID_CLOSE_PR_REASONS[reason]\<close> for each of the reasons.\<close>

fun close_pr_reason_texts :: "string list \<Rightarrow> string list prog" where
  "close_pr_reason_texts [] = ret []"
| "close_pr_reason_texts (reason # rest) =
     (case map_of VALID_CLOSE_PR_REASONS reason of
        None \<Rightarrow> raise (PyError ''KeyError'')
      | Some t \<Rightarrow> bindp (close_pr_reason_texts rest) (\<lambda>ts. ret (t # ts)))"

text \<open>Lines 1137 to 1175 of \<open>close_pr\<close>: everything before the comment is posted. The result
  is the user, the comment to post and whether the pull request is to be reopened.\<close>

definition close_pr_message ::
  "env \<Rightarrow> nat \<Rightarrow> string option \<Rightarrow> (string \<times> string \<times> bool) prog" where
  "close_pr_message env pr motivation_msg =
     (case opt_github_user env of
        None \<Rightarrow> raise (EasyBuildError ''GitHub user must be specified to use --close-pr'')
      | Some github_user \<Rightarrow>
     (let pr_target_account = opt_pr_target_account env;
          pr_target_repo = opt_pr_target_repo env
      in
      bindp (fetch_pr_data env pr pr_target_account pr_target_repo (Some github_user) True)
        (\<lambda>pr_data.
      if pr_state pr_data = GITHUB_STATE_CLOSED then
        raise (EasyBuildError (''PR #'' @ str_nat pr @ '' from '' @ pr_target_account @ ''/'' @
                 pr_target_repo @ '' is already closed.''))
      else
        (let pr_owner = pr_user_login pr_data;
             msg = [newline] @ pr_target_account @ ''/'' @ pr_target_repo @ '' PR #'' @
                   str_nat pr @ '' was submitted by '' @ pr_owner @ '', '' @
                   ''you are using GitHub account '' @ squote @ github_user @ squote @
                   [newline] @ [newline] @ ''PR Title: '' @ dquote @ pr_title pr_data @ dquote @
                   [newline]
         in
         bindp (print_msg msg) (\<lambda>_.
         (let reopen = (motivation_msg = map_of VALID_CLOSE_PR_REASONS ''retest'') in
          bindp (if \<not> truthy motivation_msg
                 then
                   bindp (print_msg (''No reason or message specified, '' @
                                     ''looking for possible reasons'' @ [newline])) (\<lambda>_.
                   bindp (reasons_for_closing env pr_data) (\<lambda>possible_reasons.
                   if possible_reasons = [] then
                     raise (EasyBuildError (''No reason specified and none found from PR data, ''
                              @ ''please use --close-pr-reasons or --close-pr-msg''))
                   else
                     bindp (close_pr_reason_texts possible_reasons) (\<lambda>texts.
                     (let motivation_msg = join_with '', '' texts in
                      bindp (print_msg ([newline] @
                               ''No reason specified but found possible reasons: '' @
                               motivation_msg @ ''.'' @ [newline])) (\<lambda>_.
                      ret motivation_msg)))))
                 else ret (name_of motivation_msg)) (\<lambda>motivation_msg.
          (let msg = ''@'' @ pr_user_login pr_data @
                     '', this PR is being closed for the following reason(s): '' @
                     motivation_msg @ ''.'';
               msg = (if \<not> reopen then
                        msg @ [newline] @ ''Please don't hesitate to reopen this PR or add a '' @
                        ''comment if you feel this contribution is still relevant.'' @ [newline]
                        @ ''For more information on our policy w.r.t. closing PRs, see '' @
                        ''https://easybuild.readthedocs.io/en/latest/Contributing.html'' @
                        ''#why-a-pull-request-may-be-closed-by-a-maintainer''
                      else msg)
           in ret (github_user, msg, reopen)))))))))"

text \<open>Lines 1176 to 1196 of \<open>close_pr\<close>: the comment and the change of state.\<close>

definition close_pr_state :: "env \<Rightarrow> nat \<Rightarrow> string \<Rightarrow> string \<Rightarrow> bool \<Rightarrow> unit prog" where
  "close_pr_state env pr github_user msg reopen =
     (let pr_target_account = opt_pr_target_account env;
          pr_target_repo = opt_pr_target_repo env;
          dry_run = dry_run_option env
      in
      bindp (post_comment_in_issue env (IssueInt (int pr)) msg pr_target_account
               pr_target_repo (Some github_user)) (\<lambda>_.
      if dry_run then
        bindp (print_msg (''[DRY RUN] Closed '' @ pr_target_account @ ''/'' @
                          pr_target_repo @ '' PR #'' @ str_nat pr)) (\<lambda>_.
        if reopen then
          print_msg (''[DRY RUN] Reopened '' @ pr_target_account @ ''/'' @
                     pr_target_repo @ '' PR #'' @ str_nat pr)
        else ret ())
      else
        bindp (fetch_github_token env (Some github_user)) (\<lambda>github_token.
        if github_token = None then
          raise (EasyBuildError (''GitHub token for user '' @ squote @ github_user @ squote
                   @ '' must be available to use --close-pr''))
        else
          (let pull_url = [''repos'', pr_target_account, pr_target_repo, ''pulls'',
                           str_nat pr];
               body = [(''state'', ''closed'')]
           in
           bindp (emit (ApiPost pull_url body)) (\<lambda>_.
           bindp (gets (api_post env pull_url body)) (\<lambda>(status, data).
           if \<not> status = HTTP_STATUS_OK then
             raise (EasyBuildError (''Failed to close PR #'' @ str_nat pr @ ''; status '' @
                      str_nat status @ '', data: '' @ data))
           else if reopen then
             (let body = [(''state'', ''open'')] in
              bindp (emit (ApiPost pull_url body)) (\<lambda>_.
              bindp (gets (api_post env pull_url body)) (\<lambda>(status, data).
              if \<not> status = HTTP_STATUS_OK then
                raise (EasyBuildError (''Failed to reopen PR #'' @ str_nat pr @
                         ''; status '' @ str_nat status @ '', data: '' @ data))
              else ret ())))
           else ret ()))))))"

definition close_pr :: "env \<Rightarrow> nat \<Rightarrow> string option \<Rightarrow> unit prog" where
  "close_pr env pr motivation_msg =
     bindp (close_pr_message env pr motivation_msg)
       (\<lambda>(github_user, msg, reopen). close_pr_state env pr github_user msg reopen)"

text \<open>\<open>github_api_put_request\<close>: status 200 is success, every other status raises. The data
  of the answer is its \<open>message\<close>, if it has one.\<close>

definition github_api_put_request ::
  "env \<Rightarrow> string list \<Rightarrow> string option \<Rightarrow> (string \<times> string) list \<Rightarrow> unit prog" where
  "github_api_put_request env url github_user body =
     (let github_user = (case github_user of None \<Rightarrow> opt_github_user env | Some u \<Rightarrow> Some u)
      in
      bindp (fetch_github_token env github_user) (\<lambda>token.
      bindp (emit (ApiPut url body)) (\<lambda>_.
      bindp (gets (api_put env url body)) (\<lambda>(status, message).
      if status = 200 then ret ()
      else if status \<in> set [405, 409] then
        (case message of
           Some m \<Rightarrow> raise (EasyBuildError (''FAILED: '' @ m))
         | None \<Rightarrow> raise (PyError ''KeyError''))
      else
        raise (EasyBuildError (''FAILED: '' @
                 (case message of Some m \<Rightarrow> m | None \<Rightarrow> ''(unknown reason)'')))))))"

definition merge_pr :: "env \<Rightarrow> nat \<Rightarrow> unit prog" where
  "merge_pr env pr =
     (case opt_github_user env of
        None \<Rightarrow> raise (EasyBuildError ''GitHub user must be specified to use --merge-pr'')
      | Some github_user \<Rightarrow>
     (let pr_target_account = opt_pr_target_account env;
          pr_target_repo = opt_pr_target_repo env
      in
      bindp (fetch_pr_data env pr pr_target_account pr_target_repo (Some github_user) True)
        (\<lambda>pr_data.
      (let msg = [newline] @ pr_target_account @ ''/'' @ pr_target_repo @ '' PR #'' @
                 str_nat pr @ '' was submitted by '' @ pr_user_login pr_data @ '', '' @
                 ''you are using GitHub account '' @ squote @ github_user @ squote @ [newline]
       in
       bindp (print_msg msg) (\<lambda>_.
       if pr_user_login pr_data = github_user then
         raise (EasyBuildError ''Please do not merge your own PRs!'')
       else
         (let force = opt_force env;
              dry_run = dry_run_option env;
              merge_url = [''repos'', pr_target_account, pr_target_repo, ''pulls'', str_nat pr,
                           ''merge'']
          in
          bindp (check_pr_eligible_to_merge env pr_data) (\<lambda>eligible.
          if eligible \<or> force then
            bindp (print_msg ([newline] @ ''Review '' @
                              (if force then ''FAILed, yet forcibly'' else ''OK,'') @
                              '' merging pull request!'' @ [newline])) (\<lambda>_.
            (let comment = ''Going in, thanks @'' @ pr_user_login pr_data @ ''!'' in
             bindp (post_comment_in_issue env (IssueInt (int pr)) comment pr_target_account
                      pr_target_repo (Some github_user)) (\<lambda>_.
             if dry_run then
               print_msg (''[DRY RUN] Merged '' @ pr_target_account @ ''/'' @ pr_target_repo @
                          '' pull request #'' @ str_nat pr)
             else
               (let body = [(''commit_message'', pr_title pr_data),
                            (''sha'', pr_head_sha pr_data)]
                in github_api_put_request env merge_url (Some github_user) body))))
          else
            print_warning (''Review indicates this PR should not be merged '' @
                           ''(use -f/--force to do so anyway)''))))))))"

section \<open>Software names for patch files\<close>

text \<open>The file name a patch entry stands for (\<open>patch[0]\<close> for a tuple or list).\<close>

fun patch_file_name :: "patch \<Rightarrow> string" where
  "patch_file_name (PatchFile f) = f"
| "patch_file_name (PatchTuple f rest) = f"

text \<open>What \<open>is_patch_for\<close> adds to the patches for one entry of \<open>exts_list\<close>:
  \<open>ext_options.get('patches', [])\<close> for a triple with options, nothing otherwise.\<close>

fun ext_patches :: "ext \<Rightarrow> patch list" where
  "ext_patches (ExtTriple n v (Some ps)) = ps"
| "ext_patches (ExtTriple n v None) = []"
| "ext_patches (ExtPair n v) = []"
| "ext_patches (ExtName n) = []"

text \<open>The loop of \<open>is_patch_for\<close> over the patches, with \<open>break\<close> at the first match.\<close>

fun patch_listed :: "string \<Rightarrow> patch list \<Rightarrow> bool" where
  "patch_listed patch_name [] = False"
| "patch_listed patch_name (p # ps) =
     (if patch_file_name p = patch_name then True else patch_listed patch_name ps)"

definition is_patch_for :: "string \<Rightarrow> easyconfig \<Rightarrow> bool" where
  "is_patch_for patch_name ec =
     (let patches = e_patches ec @ concat (map ext_patches (e_exts_list ec))
      in patch_listed patch_name patches)"

text \<open>\<open>find_software_name_for_patch\<close>, first part: collecting the files that mention
  \<open>patches\<close>, over the file names of a directory, the directories of a walk, and the roots.\<close>

fun collect_ec_files :: "string \<Rightarrow> string list \<Rightarrow> string list \<Rightarrow> string list prog" where
  "collect_ec_files dirpath [] all_ecs = ret all_ecs"
| "collect_ec_files dirpath (fn # fns) all_ecs =
     (if fn \<noteq> ''TEMPLATE.eb'' \<and> \<not> suffix ''.py'' fn then
        (let path = os_path_join dirpath fn in
         bindp (read_file path) (\<lambda>rawtxt.
         if sublist ''patches'' rawtxt
         then collect_ec_files dirpath fns (all_ecs @ [path])
         else collect_ec_files dirpath fns all_ecs))
      else collect_ec_files dirpath fns all_ecs)"

fun collect_ec_walk :: "(string \<times> string list) list \<Rightarrow> string list \<Rightarrow> string list prog" where
  "collect_ec_walk [] all_ecs = ret all_ecs"
| "collect_ec_walk ((dirpath, filenames) # rest) all_ecs =
     bindp (collect_ec_files dirpath filenames all_ecs) (collect_ec_walk rest)"

fun collect_ec_dirs :: "env \<Rightarrow> string list \<Rightarrow> string list \<Rightarrow> string list prog" where
  "collect_ec_dirs env [] all_ecs = ret all_ecs"
| "collect_ec_dirs env (ec_dir # rest) all_ecs =
     bindp (query (os_walk env ec_dir)) (\<lambda>entries.
     bindp (collect_ec_walk entries all_ecs) (collect_ec_dirs env rest))"

text \<open>The loop \<open>for ec in ecs\<close> inside the \<open>try\<close>: the name of the first easyconfig that
  lists the patch, or \<open>soft_name\<close> as it was.\<close>

fun first_patched_name :: "string \<Rightarrow> easyconfig list \<Rightarrow> string option \<Rightarrow> string option" where
  "first_patched_name patch_name [] soft_name = soft_name"
| "first_patched_name patch_name (ec # ecs) soft_name =
     (if is_patch_for patch_name ec then Some (e_name ec)
      else first_patched_name patch_name ecs soft_name)"

text \<open>Second part: the loop over the collected files, with the index and \<open>soft_name\<close>.\<close>

fun scan_ec_files ::
  "env \<Rightarrow> string \<Rightarrow> nat \<Rightarrow> nat \<Rightarrow> string list \<Rightarrow> string option \<Rightarrow> string option prog" where
  "scan_ec_files env patch_name nr_of_ecs idx [] soft_name = ret soft_name"
| "scan_ec_files env patch_name nr_of_ecs idx (path # rest) soft_name =
     (if truthy soft_name then ret soft_name
      else
        bindp (read_file path) (\<lambda>rawtxt.
        bindp (catch_eb
                 (bindp (query_answer (process_easyconfig env path))
                    (\<lambda>ecs. ret (first_patched_name patch_name ecs soft_name)))
                 (\<lambda>err. ret soft_name)) (\<lambda>soft_name.
        bindp (emit (Stdout ([CHR 0x0D] @ str_nat (idx + 1) @ '' of '' @ str_nat nr_of_ecs @
                             '' easyconfigs checked''))) (\<lambda>_.
        scan_ec_files env patch_name nr_of_ecs (idx + 1) rest soft_name))))"

definition find_software_name_for_patch ::
  "env \<Rightarrow> string \<Rightarrow> string list \<Rightarrow> string option prog" where
  "find_software_name_for_patch env patch_name ec_dirs =
     (let soft_name = None in
      bindp (collect_ec_dirs env ec_dirs []) (\<lambda>all_ecs.
      (let nr_of_ecs = length all_ecs in
       bindp (scan_ec_files env patch_name nr_of_ecs 0 all_ecs soft_name) (\<lambda>soft_name.
       bindp (emit (Stdout [newline])) (\<lambda>_.
       ret soft_name)))))"

text \<open>The loop of \<open>det_patch_specs\<close> over the easyconfigs being provided, with \<open>break\<close>.\<close>

fun known_soft_name :: "string \<Rightarrow> easyconfig list \<Rightarrow> string option" where
  "known_soft_name patch_file [] = None"
| "known_soft_name patch_file (ec # ecs) =
     (if is_patch_for patch_file ec then Some (e_name ec) else known_soft_name patch_file ecs)"

text \<open>The loop of \<open>det_patch_specs\<close> over the patch paths, with \<open>patch_specs\<close> so far.\<close>

fun det_patch_specs_loop ::
  "env \<Rightarrow> string list \<Rightarrow> file_info \<Rightarrow> string list \<Rightarrow> (string \<times> string) list \<Rightarrow>
   (string \<times> string) list prog" where
  "det_patch_specs_loop env [] file_info ec_dirs patch_specs = ret patch_specs"
| "det_patch_specs_loop env (patch_path # rest) file_info ec_dirs patch_specs =
     (let patch_file = basename patch_path;
          \<comment> \<open>consider patch lists of easyconfigs being provided\<close>
          soft_name = known_soft_name patch_file (fi_ecs file_info)
      in
      if truthy soft_name then
        det_patch_specs_loop env rest file_info ec_dirs
          (patch_specs @ [(patch_path, name_of soft_name)])
      else
        \<comment> \<open>fall back on scanning all eb files for patches\<close>
        bindp (emit (Stdout (''Matching easyconfig for '' @ patch_path @
                             '' not found on the first try:'' @ [newline]))) (\<lambda>_.
        bindp (emit (Stdout (''scanning all easyconfigs to determine where patch file '' @
                             ''belongs (this may take a while)...'' @ [newline]))) (\<lambda>_.
        bindp (find_software_name_for_patch env patch_file ec_dirs) (\<lambda>soft_name.
        if truthy soft_name then
          det_patch_specs_loop env rest file_info ec_dirs
            (patch_specs @ [(patch_path, name_of soft_name)])
        else
          \<comment> \<open>still nothing found\<close>
          raise (EasyBuildError (''Failed to determine software name to which patch file '' @
                   patch_path @ '' relates''))))))"

definition det_patch_specs ::
  "env \<Rightarrow> string list \<Rightarrow> file_info \<Rightarrow> string list \<Rightarrow> (string \<times> string) list prog" where
  "det_patch_specs env patch_paths file_info ec_dirs =
     bindp (print_msg ''determining software names for patch files...'')
       (\<lambda>_. det_patch_specs_loop env patch_paths file_info ec_dirs [])"

section \<open>The local working copy\<close>

text \<open>
  A git command is recorded as an event and may change the files. Its answer comes from the
  environment: the output or the text of a \<open>GitCommandError\<close>; for a query a truth value;
  for a fetch or a push the list of results, each with its error flag and its note or
  summary.
\<close>

definition git :: "env \<Rightarrow> gitcmd \<Rightarrow> (string + string) prog" where
  "git env cmd = bindp (external env (Git cmd)) (\<lambda>_. gets (git_result env cmd))"

definition git_ask :: "env \<Rightarrow> gitcmd \<Rightarrow> bool prog" where
  "git_ask env cmd = bindp (external env (Git cmd)) (\<lambda>_. gets (git_query env cmd))"

definition git_transfer :: "env \<Rightarrow> gitcmd \<Rightarrow> (string + (bool \<times> string) list) prog" where
  "git_transfer env cmd = bindp (external env (Git cmd)) (\<lambda>_. gets (git_infos env cmd))"

text \<open>A git command outside any \<open>try\<close>: a \<open>GitCommandError\<close> is raised as it is.\<close>

definition git_uncaught :: "env \<Rightarrow> gitcmd \<Rightarrow> string prog" where
  "git_uncaught env cmd =
     bindp (git env cmd) (\<lambda>r.
     case r of
       Inl err \<Rightarrow> raise (PyError (''GitCommandError: '' @ err))
     | Inr out \<Rightarrow> ret out)"

text \<open>\<open>print_msg(msg, silent=silent)\<close>.\<close>

definition print_msg_unless :: "bool \<Rightarrow> string \<Rightarrow> unit prog" where
  "print_msg_unless silent msg = (if silent then ret () else print_msg msg)"

text \<open>\<open>'%s' % x\<close> for a value that may be \<open>None\<close>.\<close>

definition str_opt :: "string option \<Rightarrow> string" where
  "str_opt s = (case s of None \<Rightarrow> ''None'' | Some v \<Rightarrow> v)"

text \<open>\<open>init_repo\<close> returns the repository, which is known by its path.\<close>

definition init_repo :: "env \<Rightarrow> string \<Rightarrow> string \<Rightarrow> bool \<Rightarrow> string prog" where
  "init_repo env path repo_name silent =
     (let repo_path = os_path_join path repo_name in
      bindp (gets (os_path_exists repo_path)) (\<lambda>found.
      bindp (if \<not> found then mkdir repo_path else ret ()) (\<lambda>_.
      \<comment> \<open>clone repo in git_working_dirs_path to repo_path\<close>
      bindp (if truthy (opt_git_working_dirs_path env) then
               (let workdir = os_path_join (name_of (opt_git_working_dirs_path env)) repo_name in
                bindp (gets (os_path_exists workdir)) (\<lambda>found.
                if found then
                  bindp (print_msg_unless silent
                           (''cloning git repo from '' @ workdir @ ''...'')) (\<lambda>_.
                  bindp (git env (GitClone workdir repo_path)) (\<lambda>r.
                  case r of
                    Inl err \<Rightarrow>
                      raise (EasyBuildError (''Failed to clone git repo at '' @ workdir @ '': '' @
                               err))
                  | Inr _ \<Rightarrow> ret ()))
                else ret ()))
             else ret ()) (\<lambda>_.
      \<comment> \<open>initalize repo in repo_path\<close>
      bindp (git env (GitInit repo_path)) (\<lambda>r.
      case r of
        Inl err \<Rightarrow>
          raise (EasyBuildError (''Failed to init git repo at '' @ repo_path @ '': '' @ err))
      | Inr _ \<Rightarrow> ret repo_path)))))"

definition setup_repo_from ::
  "env \<Rightarrow> string \<Rightarrow> string \<Rightarrow> string \<Rightarrow> bool \<Rightarrow> string prog" where
  "setup_repo_from env github_url target_account branch_name silent =
     \<comment> \<open>salt to use for names of remotes/branches that are created\<close>
     bindp (gets (random_letters env 5)) (\<lambda>salt.
     (let remote_name = ''pr_target_account_'' @ target_account @ ''_'' @ salt in
      bindp (git_uncaught env (GitCreateRemote remote_name github_url)) (\<lambda>_.
      bindp (git_ask env (GitRemoteExists remote_name)) (\<lambda>origin_exists.
      if \<not> origin_exists then raise (EasyBuildError (github_url @ '' does not exist?''))
      else
        \<comment> \<open>git fetch\<close>
        bindp (print_msg_unless silent
                 (''fetching branch '' @ squote @ branch_name @ squote @ '' from '' @
                  github_url @ ''...'')) (\<lambda>_.
        bindp (git_transfer env (GitFetch remote_name)) (\<lambda>r.
        bindp (case r of
                 Inl err \<Rightarrow>
                   raise (EasyBuildError (''Failed to fetch branch '' @ squote @ branch_name @
                            squote @ '' from '' @ github_url @ '': '' @ err))
               | Inr [] \<Rightarrow>
                   raise (EasyBuildError (''Fetching branch '' @ squote @ branch_name @ squote @
                            '' from remote '' @ remote_name @ '' failed: empty result''))
               | Inr ((is_error, note) # _) \<Rightarrow>
                   if is_error then
                     raise (EasyBuildError (''Fetching branch '' @ squote @ branch_name @ squote
                              @ '' from remote '' @ remote_name @ '' failed: '' @ note))
                   else ret ()) (\<lambda>_.
        \<comment> \<open>git checkout -b <branch>; git pull\<close>
        bindp (git_ask env (GitHasRef remote_name branch_name)) (\<lambda>has_ref.
        if \<not> has_ref then
          raise (EasyBuildError (''Branch '' @ squote @ branch_name @ squote @
                   '' not found at '' @ github_url))
        else
          bindp (git env (GitCheckout remote_name branch_name branch_name False)) (\<lambda>r.
          case r of
            Inr _ \<Rightarrow> ret remote_name
          | Inl err \<Rightarrow>
              (let alt_branch = branch_name @ ''_'' @ salt in
               bindp (git env (GitCheckout remote_name branch_name alt_branch True)) (\<lambda>r.
               case r of
                 Inr _ \<Rightarrow> ret remote_name
               | Inl err \<Rightarrow>
                   raise (EasyBuildError (''Failed to check out branch '' @ squote @ alt_branch
                            @ squote @ '' from repo at '' @ github_url @ '': '' @ err)))))))))))))"

text \<open>The loop of \<open>setup_repo\<close> over the URL templates, applied to account and repository.\<close>

fun setup_repo_urls ::
  "env \<Rightarrow> string \<Rightarrow> string \<Rightarrow> bool \<Rightarrow> string list \<Rightarrow> string list \<Rightarrow> string prog" where
  "setup_repo_urls env target_account branch_name silent [] errors =
     raise (EasyBuildError (join_with [newline] errors))"
| "setup_repo_urls env target_account branch_name silent (github_url # rest) errors =
     catch_eb (setup_repo_from env github_url target_account branch_name silent)
       (\<lambda>err. setup_repo_urls env target_account branch_name silent rest
                 (errors @ [''Checking out branch '' @ squote @ branch_name @ squote @
                            '' from '' @ github_url @ '' failed: '' @ err]))"

definition setup_repo ::
  "env \<Rightarrow> string \<Rightarrow> string \<Rightarrow> string \<Rightarrow> bool \<Rightarrow> bool \<Rightarrow> string prog" where
  "setup_repo env target_account target_repo branch_name silent git_only =
     (let tmpl_github_urls = [''git@github.com:'' @ target_account @ ''/'' @ target_repo @ ''.git''];
          tmpl_github_urls =
            (if \<not> git_only
             then (''https://github.com/'' @ target_account @ ''/'' @ target_repo @ ''.git'') #
                  tmpl_github_urls
             else tmpl_github_urls)
      in setup_repo_urls env target_account branch_name silent tmpl_github_urls [])"

text \<open>\<open>create_remote\<close> returns the remote, which is known by its name.\<close>

definition create_remote :: "env \<Rightarrow> string \<Rightarrow> string \<Rightarrow> bool \<Rightarrow> string prog" where
  "create_remote env account repo https =
     (let github_url = (if https then ''https://github.com/'' @ account @ ''/'' @ repo @ ''.git''
                        else ''git@github.com:'' @ account @ ''/'' @ repo @ ''.git'')
      in
      bindp (gets (random_letters env 5)) (\<lambda>salt.
      (let remote_name = ''github_'' @ account @ ''_'' @ salt in
       bindp (git env (GitCreateRemote remote_name github_url)) (\<lambda>r.
       case r of
         Inl err \<Rightarrow>
           raise (EasyBuildError (''Failed to create remote '' @ remote_name @ '' for '' @
                    github_url @ '': '' @ err))
       | Inr _ \<Rightarrow> ret remote_name))))"

definition push_branch_to_github :: "env \<Rightarrow> string \<Rightarrow> string \<Rightarrow> string \<Rightarrow> unit prog" where
  "push_branch_to_github env target_account target_repo branch =
     \<comment> \<open>push to GitHub\<close>
     bindp (create_remote env target_account target_repo False) (\<lambda>remote.
     (let dry_run = dry_run_option env;
          github_url = ''git@github.com:'' @ target_account @ ''/'' @ target_repo @ ''.git'';
          push_branch_msg = ''pushing branch '' @ squote @ branch @ squote @ '' to remote '' @
                            squote @ remote @ squote @ '' ('' @ github_url @ '')''
      in
      if dry_run then print_msg (push_branch_msg @ '' [DRY RUN]'')
      else
        bindp (print_msg push_branch_msg) (\<lambda>_.
        bindp (git_transfer env (GitPush remote branch)) (\<lambda>r.
        case r of
          Inl err \<Rightarrow>
            raise (EasyBuildError (''Failed to push branch '' @ squote @ branch @ squote @
                     '' to GitHub ('' @ github_url @ ''): '' @ err))
        | Inr [] \<Rightarrow>
            raise (EasyBuildError (''Pushing branch '' @ squote @ branch @ squote @
                     '' to remote '' @ remote @ '' ('' @ github_url @
                     '') failed: empty result''))
        | Inr ((is_error, summary) # _) \<Rightarrow>
            if is_error then
              raise (EasyBuildError (''Pushing branch '' @ squote @ branch @ squote @
                       '' to remote '' @ remote @ '' ('' @ github_url @ '') failed: '' @
                       summary))
            else ret ()))))"

section \<open>Creating and updating pull requests\<close>

text \<open>The categorized lists of files given to \<open>_easyconfigs_pr_common\<close>.\<close>

record pr_paths =
  easyconfigs :: "string list"
  files_to_delete :: "string list"
  patch_files :: "string list"

definition copy_easyconfigs :: "env \<Rightarrow> string list \<Rightarrow> string \<Rightarrow> file_info prog" where
  "copy_easyconfigs env paths target_dir =
     bindp (external env (CopyEasyconfigs paths target_dir))
       (\<lambda>_. answer (copy_easyconfigs_result env paths target_dir))"

definition copy_patch_files ::
  "env \<Rightarrow> (string \<times> string) list \<Rightarrow> string \<Rightarrow> file_info prog" where
  "copy_patch_files env patch_specs target_dir =
     bindp (external env (CopyPatchFiles patch_specs target_dir))
       (\<lambda>_. answer (copy_patch_files_result env patch_specs target_dir))"

text \<open>Lines 741 to 751: the paths of the files to delete.\<close>

fun det_deleted_paths :: "env \<Rightarrow> string \<Rightarrow> string list \<Rightarrow> string list \<Rightarrow> string list prog" where
  "det_deleted_paths env repo_path [] deleted_paths = ret deleted_paths"
| "det_deleted_paths env repo_path (fn # rest) deleted_paths =
     (let fullpath = os_path_join repo_path fn in
      bindp (gets (os_path_exists fullpath)) (\<lambda>found.
      if found then det_deleted_paths env repo_path rest (deleted_paths @ [fullpath])
      else
        \<comment> \<open>if no existing relative path is specified, assume just the easyconfig file name
            is provided\<close>
        bindp (query (glob_glob env
                 (os_path_join (os_path_join (os_path_join (os_path_join (os_path_join
                    repo_path ''easybuild'') ''easyconfigs'') ''*'') ''*'') fn))) (\<lambda>hits.
        (case hits of
           [hit] \<Rightarrow> det_deleted_paths env repo_path rest (deleted_paths @ [hit])
         | _ \<Rightarrow>
           raise (EasyBuildError (''Path doesn't exist or file to delete isn't found in '' @
                    ''target branch: '' @ fn))))))"

text \<open>Lines 768 to 771: the paths in the repository of the new easyconfigs for dependencies;
  an index beyond a list raises.\<close>

fun new_dep_paths :: "file_info \<Rightarrow> nat list \<Rightarrow> string list \<Rightarrow> string list prog" where
  "new_dep_paths all_dep_info [] paths_in_repo = ret paths_in_repo"
| "new_dep_paths all_dep_info (idx # rest) paths_in_repo =
     (if idx < length (fi_new all_dep_info) then
        (if fi_new all_dep_info ! idx then
           (if idx < length (fi_paths_in_repo all_dep_info) then
              new_dep_paths all_dep_info rest
                (paths_in_repo @ [fi_paths_in_repo all_dep_info ! idx])
            else raise (PyError ''IndexError''))
         else new_dep_paths all_dep_info rest paths_in_repo)
      else raise (PyError ''IndexError''))"

text \<open>What the first part of \<open>_easyconfigs_pr_common\<close> hands to the second.\<close>

record staged =
  st_file_info :: file_info
  st_deleted_paths :: "string list"
  st_git_repo :: string
  st_pr_branch :: string
  st_commit_msg :: string
  st_target_account :: "string option"
  st_pr_target_repo :: string

text \<open>Lines 672 to 797 of \<open>_easyconfigs_pr_common\<close>: from the check of the paths to the staging
  of the files.\<close>

definition stage_pr_files ::
  "env \<Rightarrow> pr_paths \<Rightarrow> easyconfig list option \<Rightarrow> string option \<Rightarrow> string option \<Rightarrow>
   string option \<Rightarrow> string option \<Rightarrow> staged prog" where
  "stage_pr_files env paths ecs start_branch pr_branch start_account commit_msg =
     \<comment> \<open>we need files to create the PR with\<close>
     bindp (gets (\<lambda>w. filter (\<lambda>p. \<not> os_path_exists p w) (easyconfigs paths)))
       (\<lambda>non_existing_paths.
     if non_existing_paths \<noteq> [] then
       raise (EasyBuildError (''One or more non-existing paths specified: '' @
                join_with '', '' non_existing_paths))
     else if easyconfigs paths = [] \<and> files_to_delete paths = [] \<and> patch_files paths = [] then
       raise (EasyBuildError ''No paths specified'')
     else
       (let ec_paths = easyconfigs paths;
            pr_target_repo = opt_pr_target_repo env
        in
        \<comment> \<open>initialize repository\<close>
        bindp (mkdtemp env ''git-working-dir'') (\<lambda>git_working_dir.
        bindp (init_repo env git_working_dir pr_target_repo False) (\<lambda>git_repo.
        (let repo_path = os_path_join git_working_dir pr_target_repo in
         if pr_target_repo \<noteq> GITHUB_EASYCONFIGS_REPO then
           raise (EasyBuildError (''Don't know how to create/update a pull request to the '' @
                    pr_target_repo @ '' repository''))
         else
           (let target_account =
                  (case start_branch of
                     None \<Rightarrow> (if truthy (opt_github_org env) then opt_github_org env
                                else opt_github_user env)
                   | Some _ \<Rightarrow> start_account);
                start_branch =
                  (case start_branch of None \<Rightarrow> opt_pr_target_branch env | Some b \<Rightarrow> b)
            in
            \<comment> \<open>set up repository\<close>
            bindp (setup_repo env (str_opt start_account) pr_target_repo start_branch False
                     False) (\<lambda>_.
            bindp (git_uncaught env GitStatus) (\<lambda>_.
            \<comment> \<open>copy easyconfig files to right place\<close>
            (let target_dir = os_path_join git_working_dir pr_target_repo in
             bindp (print_msg (''copying easyconfigs to '' @ target_dir @ ''...'')) (\<lambda>_.
             bindp (copy_easyconfigs env ec_paths target_dir) (\<lambda>file_info.
             \<comment> \<open>figure out commit message to use\<close>
             bindp (if truthy commit_msg then ret (name_of commit_msg)
                    else if list_all (\<lambda>b. b) (fi_new file_info) \<and> files_to_delete paths = []
                    then
                      (let msg = ''adding easyconfigs: '' @
                                 join_with '', '' (map basename (fi_paths_in_repo file_info))
                       in ret (if patch_files paths \<noteq> []
                               then msg @ '' and patches: '' @
                                    join_with '', '' (map basename (patch_files paths))
                               else msg))
                    else
                      raise (EasyBuildError (''A meaningful commit message must be specified ''
                               @ ''via --pr-commit-msg when modifying/deleting easyconfigs'')))
               (\<lambda>commit_msg.
             \<comment> \<open>figure out to which software name patches relate, and copy them\<close>
             bindp (if patch_files paths \<noteq> [] then
                      bindp (det_patch_specs env (patch_files paths) file_info [target_dir])
                        (\<lambda>patch_specs.
                      bindp (print_msg (''copying patch files to '' @ target_dir @ ''...'')) (\<lambda>_.
                      bindp (copy_patch_files env patch_specs target_dir) (\<lambda>patch_info.
                      ret (fi_paths_in_repo patch_info))))
                    else ret []) (\<lambda>patch_paths_in_repo.
             \<comment> \<open>determine path to files to delete (if any)\<close>
             bindp (det_deleted_paths env repo_path (files_to_delete paths) [])
               (\<lambda>deleted_paths.
             \<comment> \<open>include missing easyconfigs for dependencies, if robot is enabled\<close>
             bindp (case ecs of
                      None \<Rightarrow> ret []
                    | Some ecs \<Rightarrow>
                        bindp (query (\<lambda>fs. map (\<lambda>p. os_path_realpath env
                                                     (os_path_abspath env p fs) fs) ec_paths))
                          (\<lambda>abs_paths.
                        bindp (query (\<lambda>fs. map e_spec
                                 (filter (\<lambda>ec. os_path_realpath env (e_spec ec) fs
                                                \<notin> set abs_paths) ecs))) (\<lambda>dep_paths.
                        bindp (copy_easyconfigs env dep_paths target_dir) (\<lambda>all_dep_info.
                        \<comment> \<open>only consider new easyconfig files for dependencies\<close>
                        new_dep_paths all_dep_info [0..<length (fi_ecs all_dep_info)] []))))
               (\<lambda>dep_paths_in_repo.
             \<comment> \<open>checkout target branch\<close>
             bindp (case pr_branch of
                      Some b \<Rightarrow> ret b
                    | None \<Rightarrow>
                        bindp (if ec_paths \<noteq> [] then
                                 (case fi_ecs file_info of
                                    [] \<Rightarrow> raise (PyError ''IndexError'')
                                  | ec # _ \<Rightarrow>
                                      ret (e_name ec @
                                           filter (\<lambda>c. c \<notin> set ''.-'') (e_version ec)))
                               else gets (random_letters env 10)) (\<lambda>label.
                        bindp (gets (time_strftime env)) (\<lambda>stamp.
                        ret (stamp @ ''_new_pr_'' @ label)))) (\<lambda>pr_branch.
             \<comment> \<open>create branch to commit to and push\<close>
             bindp (git_uncaught env (GitCreateHead pr_branch)) (\<lambda>_.
             \<comment> \<open>stage\<close>
             bindp (git_uncaught env (GitAdd (fi_paths_in_repo file_info))) (\<lambda>_.
             bindp (git_uncaught env (GitAdd dep_paths_in_repo)) (\<lambda>_.
             bindp (if patch_files paths \<noteq> []
                    then bindp (git_uncaught env (GitAdd patch_paths_in_repo)) (\<lambda>_. ret ())
                    else ret ()) (\<lambda>_.
             \<comment> \<open>stage deleted files\<close>
             bindp (if deleted_paths \<noteq> []
                    then bindp (git_uncaught env (GitRemove deleted_paths)) (\<lambda>_. ret ())
                    else ret ()) (\<lambda>_.
             ret \<lparr>st_file_info = file_info, st_deleted_paths = deleted_paths,
                  st_git_repo = git_repo, st_pr_branch = pr_branch,
                  st_commit_msg = commit_msg, st_target_account = target_account,
                  st_pr_target_repo = pr_target_repo\<rparr>)))))))))))))))))))))"

text \<open>Lines 799 to 814: the overview of the modifications, the check of the diff, the commit
  and the push.\<close>

definition commit_and_push ::
  "env \<Rightarrow> staged \<Rightarrow> (file_info \<times> string list \<times> string \<times> string \<times> string) prog" where
  "commit_and_push env st =
     \<comment> \<open>overview of modifications\<close>
     bindp (if opt_extended_dry_run env then
              bindp (print_msg ([newline] @ ''Full patch:'' @ [newline])) (\<lambda>_.
              bindp (git_uncaught env (GitDiffCached False)) (\<lambda>full_patch.
              print_msg (full_patch @ [newline])))
            else ret ()) (\<lambda>_.
     bindp (git_uncaught env (GitDiffCached True)) (\<lambda>diff_stat.
     if diff_stat = [] then
       raise (EasyBuildError (''No changed files found when comparing to current develop '' @
                ''branch. Refused to make empty pull request.''))
     else
       \<comment> \<open>commit\<close>
       bindp (git_uncaught env (GitCommit (st_commit_msg st))) (\<lambda>_.
       bindp (push_branch_to_github env (str_opt (st_target_account st))
                (st_pr_target_repo st) (st_pr_branch st)) (\<lambda>_.
       ret (st_file_info st, st_deleted_paths st, st_git_repo st, st_pr_branch st,
            diff_stat)))))"

definition easyconfigs_pr_common ::
  "env \<Rightarrow> pr_paths \<Rightarrow> easyconfig list option \<Rightarrow> string option \<Rightarrow> string option \<Rightarrow>
   string option \<Rightarrow> string option \<Rightarrow>
   (file_info \<times> string list \<times> string \<times> string \<times> string) prog" where
  "easyconfigs_pr_common env paths ecs start_branch pr_branch start_account commit_msg =
     bindp (stage_pr_files env paths ecs start_branch pr_branch start_account commit_msg)
       (commit_and_push env)"

section \<open>Statements about runs\<close>

text \<open>Every event a computation adds to the trace satisfies \<open>P\<close>, whatever the world it starts
  in and whether it returns or raises.\<close>

definition emits :: "(event \<Rightarrow> bool) \<Rightarrow> 'a prog \<Rightarrow> bool" where
  "emits P m = (\<forall>w. \<exists>evs. trace (snd (m w)) = trace w @ evs \<and> list_all P evs)"

text \<open>The events a run from world \<open>w\<close> to world \<open>w'\<close> has added.\<close>

definition new_events :: "world \<Rightarrow> world \<Rightarrow> event list" where
  "new_events w w' = drop (length (trace w)) (trace w')"

text \<open>Console output, read requests to the forge and the keyring, and the operations of the
  file utilities other than applying a patch.\<close>

fun basic_event :: "event \<Rightarrow> bool" where
  "basic_event (PrintMsg m) = True"
| "basic_event (PrintStderr m) = True"
| "basic_event (PrintWarning m) = True"
| "basic_event (Stdout m) = True"
| "basic_event (ApiGet url) = True"
| "basic_event (FetchToken user) = True"
| "basic_event (Mkdtemp d) = True"
| "basic_event (Mkdir d) = True"
| "basic_event (DownloadFile fn url path) = True"
| "basic_event (ExtractFile fn dest) = True"
| "basic_event (WriteFile path txt) = True"
| "basic_event (Symlink source_path symlink_path) = True"
| "basic_event (ApiPost url body) = False"
| "basic_event (ApiPut url body) = False"
| "basic_event (ApplyPatch patch_file dest) = False"
| "basic_event (CopyEasyconfigs paths target_dir) = False"
| "basic_event (CopyPatchFiles specs target_dir) = False"
| "basic_event (Git cmd) = False"

text \<open>The message \<open>merge_pr\<close> prints before anything else is decided.\<close>

definition merge_pr_submitted_msg :: "env \<Rightarrow> nat \<Rightarrow> pr_data \<Rightarrow> string \<Rightarrow> string" where
  "merge_pr_submitted_msg env pr pr_data github_user =
     [newline] @ opt_pr_target_account env @ ''/'' @ opt_pr_target_repo env @ '' PR #'' @
     str_nat pr @ '' was submitted by '' @ pr_user_login pr_data @ '', '' @
     ''you are using GitHub account '' @ squote @ github_user @ squote @ [newline]"

text \<open>The paths at which the sanity check expects the patched files that are not tests.\<close>

definition expected_paths :: "string \<Rightarrow> string list \<Rightarrow> string list" where
  "expected_paths path patched_files =
     map (\<lambda>f. os_path_join path (last3 f)) (filter (\<lambda>f. \<not> prefix ''test/'' f) patched_files)"

text \<open>Whenever the computation returns, the value and the world it returns satisfy \<open>Q\<close>.\<close>

definition returns :: "('a \<Rightarrow> world \<Rightarrow> bool) \<Rightarrow> 'a prog \<Rightarrow> bool" where
  "returns Q m = (\<forall>w x. fst (m w) = Inr x \<longrightarrow> Q x (snd (m w)))"

text \<open>The third strategy of the content resolver: download each patched file at the head
  commit of the pull request into the destination, which then is the final path; and the
  download it makes for one file.\<close>

definition per_file_download :: "env \<Rightarrow> pr_data \<Rightarrow> string \<Rightarrow> string list \<Rightarrow> string prog" where
  "per_file_download env pr_data path patched_files =
     bindp (download_patched_files env (opt_pr_target_account env) GITHUB_EASYCONFIGS_REPO
              (pr_head_sha pr_data) path patched_files)
       (\<lambda>_. ret path)"

definition patched_file_download :: "env \<Rightarrow> pr_data \<Rightarrow> string \<Rightarrow> string \<Rightarrow> event" where
  "patched_file_download env pr_data path patched_file =
     DownloadFile (last3 patched_file)
       (join_with URL_SEPARATOR
          [GITHUB_RAW, opt_pr_target_account env, GITHUB_EASYCONFIGS_REPO, pr_head_sha pr_data,
           patched_file])
       (os_path_join path (last3 patched_file))"

text \<open>The world after the attempt to apply a patch.\<close>

definition after_apply_patch :: "env \<Rightarrow> string \<Rightarrow> string \<Rightarrow> world \<Rightarrow> world" where
  "after_apply_patch env patch_file dest w = snd (external env (ApplyPatch patch_file dest) w)"




text \<open>The first part of \<open>fetch_easyconfigs_from_pr\<close>, lines 374 to 405, in its steps: the user
  and the destination that are used, the path of the diff, and the whole part as one
  computation. It makes the destination, fetches the record of the pull request, downloads the
  base branch of the record with \<open>download_repo\<close>, downloads the diff and reads it; it returns
  the destination, the record, the directory \<open>download_repo\<close> gave and the text of the
  diff.\<close>

definition pr_user :: "env \<Rightarrow> string option \<Rightarrow> string option" where
  "pr_user env github_user = (case github_user of None \<Rightarrow> opt_github_user env | Some u \<Rightarrow> Some u)"

definition pr_destination :: "env \<Rightarrow> string option \<Rightarrow> string prog" where
  "pr_destination env path =
     (case (case path of None \<Rightarrow> opt_pr_path env | Some p \<Rightarrow> Some p) of
        None \<Rightarrow> mkdtemp env []
      | Some p \<Rightarrow> bindp (mkdir p) (\<lambda>_. ret p))"

definition pr_diff_filepath :: "string \<Rightarrow> pr_data \<Rightarrow> string" where
  "pr_diff_filepath dest pr_data = os_path_join dest (basename (pr_diff_url pr_data))"

definition pr_context ::
  "env \<Rightarrow> nat \<Rightarrow> string option \<Rightarrow> string option \<Rightarrow> (string \<times> pr_data \<times> string \<times> string) prog"
  where
  "pr_context env pr path github_user =
     bindp (pr_destination env path) (\<lambda>dest.
     bindp (fetch_pr_data env pr (opt_pr_target_account env) GITHUB_EASYCONFIGS_REPO
              (pr_user env github_user) False) (\<lambda>pr_data.
     bindp (download_repo env GITHUB_EASYCONFIGS_REPO (pr_base_ref pr_data)
              (opt_pr_target_account env) None (pr_user env github_user)) (\<lambda>tree.
     bindp (download_file env (basename (pr_diff_url pr_data)) (pr_diff_url pr_data)
              (pr_diff_filepath dest pr_data)) (\<lambda>_.
     bindp (read_file (pr_diff_filepath dest pr_data)) (\<lambda>diff_txt.
     ret (dest, pr_data, tree, diff_txt))))))"

text \<open>Lines 444 to 448 as a computation of their own: the directories with easyconfigs of a
  tree are linked into the destination, unless the tree is the destination. And the event of
  the link for one directory.\<close>

definition easyconfigs_dir :: "string \<Rightarrow> string" where
  "easyconfigs_dir tree = os_path_join (os_path_join tree ''easybuild'') ''easyconfigs''"

definition symlink_tree :: "env \<Rightarrow> string \<Rightarrow> string \<Rightarrow> unit prog" where
  "symlink_tree env final_path path =
     (if final_path \<noteq> path then
        bindp (query_answer (os_listdir env (easyconfigs_dir final_path)))
          (\<lambda>eb_dirs. symlink_dirs env (easyconfigs_dir final_path) path eb_dirs)
      else ret ())"


text \<open>The reconstruction, lines 411 to 448: the choice of the tree and the links.\<close>

definition pr_reconstruct ::
  "env \<Rightarrow> nat \<Rightarrow> pr_data \<Rightarrow> string \<Rightarrow> string \<Rightarrow> string \<Rightarrow> unit prog" where
  "pr_reconstruct env pr pr_data dest tree diff_txt =
     bindp (pr_final_path env pr pr_data dest tree (pr_diff_filepath dest pr_data)
              (det_patched_files env diff_txt))
       (\<lambda>final_path. symlink_tree env final_path dest)"

text \<open>The downloads of the patched files at the head commit, as \<open>fetch_easyconfigs_from_pr\<close>
  makes them.\<close>

definition head_downloads :: "env \<Rightarrow> pr_data \<Rightarrow> string \<Rightarrow> string list \<Rightarrow> unit prog" where
  "head_downloads env pr_data dest patched_files =
     download_patched_files env (opt_pr_target_account env) GITHUB_EASYCONFIGS_REPO
       (pr_head_sha pr_data) dest patched_files"

text \<open>The attempt to apply a patch.\<close>

fun is_apply_patch :: "event \<Rightarrow> bool" where
  "is_apply_patch (ApplyPatch patch_file dest) = True"
| "is_apply_patch e = False"

section \<open>Example data\<close>

definition world0 :: world where
  "world0 = \<lparr>files = Map.empty, dirs = {}, trace = []\<rparr>"

definition pr_example :: pr_data where
  "pr_example =
     \<lparr>pr_number = 1234, pr_title = ''{tools}[foss/2019a] zlib v1.2.11'', pr_state = ''open'',
      pr_merged = False, pr_user_login = ''alice'', pr_updated_at = ''2019-05-01T10:00:00Z'',
      pr_base_ref = ''develop'', pr_base_repo_owner = ''easybuilders'',
      pr_base_repo_name = ''easybuild-easyconfigs'', pr_head_label = ''alice:zlib'',
      pr_head_sha = ''0123abc'',
      pr_diff_url = ''https://github.com/easybuilders/easybuild-easyconfigs/pull/1234.diff'',
      pr_milestone = Some ''4.0'', pr_status_last_commit = ''success'',
      pr_issue_comments =
        [\<lparr>c_body = ''Test report by @bob'' @ [newline] @ ''**SUCCESS**'',
          c_updated_at = ''2019-05-02T10:00:00Z'', c_user_login = ''bob''\<rparr>],
      pr_reviews =
        [\<lparr>r_state = ''APPROVED'', r_body = ''lgtm'',
          r_submitted_at = ''2019-05-03T10:00:00Z'', r_user_login = ''carol''\<rparr>]\<rparr>"



section \<open>The criteria of eligibility, stated\<close>








definition unicode_whitespace :: "char \<Rightarrow> bool" where
  "unicode_whitespace c =
     (c \<in> set [CHR '' '', CHR 0x09, CHR 0x0A, CHR 0x0B, CHR 0x0C, CHR 0x0D,
                CHR 0x1C, CHR 0x1D, CHR 0x1E, CHR 0x1F, CHR 0x85, CHR 0xA0])"

text \<open>An environment for the examples, with the white space of Python 3. A download writes a
  file, extracting the archive of the
  easyconfigs repository gives a tree with one easyconfig, a symbolic link makes the files
  under its source visible under its name, and the robot path holds a newer zlib.\<close>

definition zlib_eb :: string where
  "zlib_eb = ''easybuild/easyconfigs/z/zlib/zlib-1.2.11.eb''"

definition fs_effect_example :: "event \<Rightarrow> world \<Rightarrow> filesystem" where
  "fs_effect_example ev w =
     (case ev of
        DownloadFile fn url path \<Rightarrow> ((files w)(path \<mapsto> ''content of '' @ url), dirs w)
      | ExtractFile fn dest \<Rightarrow>
          ((files w)(os_path_join (os_path_join dest ''easybuild-easyconfigs-develop'') zlib_eb
                       \<mapsto> ''name = zlib''),
           insert (os_path_join dest ''easybuild-easyconfigs-develop'') (dirs w))
      | Symlink source_path symlink_path \<Rightarrow>
          ((\<lambda>p. case files w p of
                   Some txt \<Rightarrow> Some txt
                 | None \<Rightarrow>
                     if prefix (symlink_path @ ''/'') p
                     then files w (source_path @ drop (length symlink_path) p)
                     else None),
           insert symlink_path (dirs w))
      | _ \<Rightarrow> (files w, dirs w))"

definition zlib_config :: "string \<Rightarrow> ec_dict" where
  "zlib_config version =
     \<lparr>ec_name = ''zlib'', ec_version = version, ec_toolchain_name = ''foss'',
      ec_toolchain_version = ''2019a'', ec_easyblock = Some ''ConfigureMake'',
      ec_versionsuffix = None\<rparr>"

definition zlib_easyconfig :: easyconfig where
  "zlib_easyconfig =
     \<lparr>e_name = ''zlib'', e_version = ''1.2.11'', e_spec = ''/home/bob/zlib-1.2.11.eb'',
      e_patches = [PatchFile ''zlib-1.2.11_fix.patch''],
      e_exts_list = [ExtName ''a'', ExtTriple ''b'' ''1.0'' (Some [PatchTuple ''b-1.0.patch'' [''1'']])]\<rparr>"

definition env_example :: env where
  "env_example =
     \<lparr>opt_github_user = Some ''bob'', opt_github_org = None, opt_pr_path = Some ''/prs'',
      opt_pr_target_account = ''easybuilders'', opt_pr_target_repo = ''easybuild-easyconfigs'',
      opt_pr_target_branch = ''develop'', opt_pr_branch_name = None,
      opt_robot_path = [''/robot''], opt_dry_run = False, opt_extended_dry_run = False,
      opt_force = False, opt_git_working_dirs_path = None,
      keyring_get_password = (\<lambda>user w. Some ''token''),
      api_branches = (\<lambda>account repo w. (200, [(''master'', ''aaa111''), (''develop'', ''bbb222'')], [])),
      api_pull = (\<lambda>account repo pr w. (200, pr_example, [])),
      api_commit_status = (\<lambda>account repo sha w. (200, ''success'', [])),
      api_issue_comments = (\<lambda>account repo pr w. (200, pr_issue_comments pr_example, [])),
      api_reviews = (\<lambda>account repo pr w. (200, pr_reviews pr_example, [])),
      api_post = (\<lambda>url body w. (if last url = ''comments'' then 201 else 200, [])),
      api_put = (\<lambda>url body w. (200, Some ''Pull Request successfully merged'')),
      fs_effect = fs_effect_example,
      mkdtemp_name = (\<lambda>pre w. ''/tmp/'' @ pre @ str_nat (length (trace w))),
      download_file_result = (\<lambda>fn url path w. Inr (Some path)),
      extract_file_result = (\<lambda>fn dest w. Inr dest),
      apply_patch_result = (\<lambda>patch_file dest w. Inr ()),
      symlink_result = (\<lambda>source_path symlink_path w. Inr ()),
      det_patched_files = (\<lambda>txt. [zlib_eb]),
      os_listdir = (\<lambda>path fs. Inr [''z'']),
      os_walk = (\<lambda>path fs. if path = ''/robot/z/zlib''
                              then [(''/robot/z/zlib'', [''zlib-1.2.12.eb'', ''README''])] else []),
      glob_glob = (\<lambda>pattern fs. []),
      os_path_realpath = (\<lambda>path fs. path),
      os_path_abspath = (\<lambda>path fs. path),
      datetime_now = (\<lambda>w. 1000000),
      datetime_strptime = (\<lambda>stamp. Some 0),
      time_strftime = (\<lambda>w. ''20190501100000''),
      random_letters = (\<lambda>n w. replicate n CHR ''x''),
      py_int = (\<lambda>s. None),
      str_isspace = unicode_whitespace,
      regex_whitespace = unicode_whitespace,
      get_config_dict = (\<lambda>path fs. if suffix ''zlib-1.2.12.eb'' path then Inr (zlib_config ''1.2.12'')
                                     else Inr (zlib_config ''1.2.11'')),
      process_easyconfig = (\<lambda>path fs. Inr [zlib_easyconfig]),
      loose_version_gt = (\<lambda>a b. a = ''1.2.12'' \<and> b = ''1.2.11''),
      copy_easyconfigs_result = (\<lambda>paths target_dir w.
         Inr \<lparr>fi_ecs = map (\<lambda>p. zlib_easyconfig) paths,
              fi_paths_in_repo = map (\<lambda>p. os_path_join target_dir zlib_eb) paths,
              fi_new = map (\<lambda>p. True) paths\<rparr>),
      copy_patch_files_result = (\<lambda>specs target_dir w.
         Inr \<lparr>fi_ecs = [], fi_paths_in_repo = map fst specs, fi_new = map (\<lambda>p. True) specs\<rparr>),
      git_result = (\<lambda>cmd w. case cmd of GitDiffCached stat \<Rightarrow> Inr '' 1 file changed''
                                         | _ \<Rightarrow> Inr []),
      git_query = (\<lambda>cmd w. True),
      git_infos = (\<lambda>cmd w. Inr [(False, ''ok'')])\<rparr>"

text \<open>The same environment for a user who is the author of the pull request and forces the
  merge.\<close>

definition env_own_pr :: env where
  "env_own_pr = env_example\<lparr>opt_github_user := Some ''alice'', opt_force := True\<rparr>"


text \<open>A world in which the easyconfig of the pull request is in place under \<open>/prs\<close>.\<close>

definition world_with_zlib :: world where
  "world_with_zlib = world0\<lparr>files := [''/prs/z/zlib/zlib-1.2.11.eb'' \<mapsto> ''name = zlib'']\<rparr>"


definition pr_closed_example :: pr_data where
  "pr_closed_example = pr_example\<lparr>pr_state := ''closed''\<rparr>"


definition env_apply_fails :: env where
  "env_apply_fails =
     env_example\<lparr>apply_patch_result :=
                   (\<lambda>patch_file dest w. Inl (EasyBuildError ''patch does not apply''))\<rparr>"


text \<open>An environment in which the forge reports the closed pull request, and one in which the
  diff names a second easyconfig that the base branch does not have.\<close>

definition env_closed :: env where
  "env_closed = env_example\<lparr>api_pull := (\<lambda>account repo pr w. (200, pr_closed_example, []))\<rparr>"

definition abc_eb :: string where
  "abc_eb = ''easybuild/easyconfigs/a/abc/abc-1.0.eb''"

definition env_missing :: env where
  "env_missing = env_example\<lparr>det_patched_files := (\<lambda>txt. [zlib_eb, abc_eb])\<rparr>"

section \<open>Verified properties\<close>

subsection \<open>Results of computations\<close>

lemma fst_bindp:
  "fst (bindp m f w) = (case fst (m w) of Inl e \<Rightarrow> Inl e | Inr x \<Rightarrow> fst (f x (snd (m w))))"
  by (simp add: bindp_def split: prod.splits sum.splits)

lemma fst_ret [simp]: "fst (ret x w) = Inr x"
  by (simp add: ret_def)

lemma fst_emit [simp]: "fst (emit ev w) = Inr ()"
  by (simp add: emit_def)

lemma fst_print_msg [simp]: "fst (print_msg m w) = Inr ()"
  by (simp add: print_msg_def)

lemma fst_print_warning [simp]: "fst (print_warning m w) = Inr ()"
  by (simp add: print_warning_def)

subsection \<open>Eligibility for merging\<close>

lemma fst_not_eligible [simp]: "fst (not_eligible m w) = Inr False"
  by (simp add: not_eligible_def fst_bindp)






lemma bindp_apply:
  "bindp m f w = (case m w of (Inl e, w') \<Rightarrow> (Inl e, w') | (Inr x, w') \<Rightarrow> f x w')"
  by (simp add: bindp_def)

lemma snd_bindp:
  "snd (bindp m f w) = (case fst (m w) of Inl e \<Rightarrow> snd (m w) | Inr x \<Rightarrow> snd (f x (snd (m w))))"
  by (simp add: bindp_def split: prod.splits sum.splits)

lemma emitsI:
  assumes "\<And>w. \<exists>evs. trace (snd (m w)) = trace w @ evs \<and> list_all P evs"
  shows "emits P m"
  using assms by (simp add: emits_def)

lemma emitsD: "emits P m \<Longrightarrow> \<exists>evs. trace (snd (m w)) = trace w @ evs \<and> list_all P evs"
  by (simp add: emits_def)

lemma emits_ret: "emits P (ret x)"
  by (simp add: emits_def ret_def)

lemma emits_raise: "emits P (raise e)"
  by (simp add: emits_def raise_def)

lemma emits_gets: "emits P (gets f)"
  by (simp add: emits_def gets_def)

lemma emits_answer: "emits P (answer f)"
  by (simp add: emits_def answer_def)

lemma emits_query: "emits P (query f)"
  by (simp add: emits_def query_def)

lemma emits_query_answer: "emits P (query_answer f)"
  by (simp add: emits_def query_answer_def)

lemma emits_read_file: "emits P (read_file p)"
  by (simp add: emits_def read_file_def split: option.splits)

lemma emits_emit: "P ev \<Longrightarrow> emits P (emit ev)"
  by (simp add: emits_def emit_def)

lemma emits_external: "P ev \<Longrightarrow> emits P (external env ev)"
  by (simp add: emits_def external_def)

lemma emits_bindp_res:
  assumes m: "emits P m" and f: "\<And>w x. fst (m w) = Inr x \<Longrightarrow> emits P (f x)"
  shows "emits P (bindp m f)"
proof (rule emitsI)
  fix w
  obtain evs where evs: "trace (snd (m w)) = trace w @ evs" "list_all P evs"
    using emitsD [OF m] by blast
  show "\<exists>evs. trace (snd (bindp m f w)) = trace w @ evs \<and> list_all P evs"
  proof (cases "fst (m w)")
    case (Inl e)
    with evs show ?thesis by (auto simp: snd_bindp)
  next
    case (Inr x)
    obtain evs' where evs': "trace (snd (f x (snd (m w)))) = trace (snd (m w)) @ evs'"
        "list_all P evs'"
      using emitsD [OF f [OF Inr]] by blast
    with evs Inr have "trace (snd (bindp m f w)) = trace w @ (evs @ evs')"
        "list_all P (evs @ evs')"
      by (auto simp: snd_bindp)
    then show ?thesis by blast
  qed
qed

lemma emits_bindp: "emits P m \<Longrightarrow> (\<And>x. emits P (f x)) \<Longrightarrow> emits P (bindp m f)"
  by (rule emits_bindp_res)

lemma emits_catch_eb:
  assumes m: "emits P m" and h: "\<And>msg. emits P (h msg)"
  shows "emits P (catch_eb m h)"
proof (rule emitsI)
  fix w
  obtain evs where evs: "trace (snd (m w)) = trace w @ evs" "list_all P evs"
    using emitsD [OF m] by blast
  show "\<exists>evs. trace (snd (catch_eb m h w)) = trace w @ evs \<and> list_all P evs"
  proof (cases "\<exists>msg. fst (m w) = Inl (EasyBuildError msg)")
    case True
    then obtain msg where msg: "fst (m w) = Inl (EasyBuildError msg)" by blast
    obtain evs' where evs': "trace (snd (h msg (snd (m w)))) = trace (snd (m w)) @ evs'"
        "list_all P evs'"
      using emitsD [OF h] by blast
    from msg have "catch_eb m h w = h msg (snd (m w))"
      by (cases "m w") (simp add: catch_eb_def)
    with evs evs' have "trace (snd (catch_eb m h w)) = trace w @ (evs @ evs')"
        "list_all P (evs @ evs')"
      by auto
    then show ?thesis by blast
  next
    case False
    then have "catch_eb m h w = m w"
      by (cases "m w") (auto simp: catch_eb_def split: sum.splits error.splits)
    with evs show ?thesis by auto
  qed
qed

lemma emits_if: "emits P a \<Longrightarrow> emits P b \<Longrightarrow> emits P (if c then a else b)"
  by simp

lemma emits_let: "emits P (f s) \<Longrightarrow> emits P (Let s f)"
  by simp

lemma emits_case_option:
  "emits P a \<Longrightarrow> (\<And>y. emits P (b y)) \<Longrightarrow> emits P (case x of None \<Rightarrow> a | Some y \<Rightarrow> b y)"
  by (cases x) simp_all

lemma emits_case_sum:
  "(\<And>y. emits P (a y)) \<Longrightarrow> (\<And>y. emits P (b y)) \<Longrightarrow>
   emits P (case x of Inl y \<Rightarrow> a y | Inr y \<Rightarrow> b y)"
  by (cases x) simp_all

lemma emits_case_list:
  "emits P a \<Longrightarrow> (\<And>y ys. emits P (b y ys)) \<Longrightarrow> emits P (case x of [] \<Rightarrow> a | y # ys \<Rightarrow> b y ys)"
  by (cases x) simp_all

lemma emits_case_prod: "(\<And>a b. emits P (f a b)) \<Longrightarrow> emits P (case x of (a, b) \<Rightarrow> f a b)"
  by (cases x) simp

lemma emits_case_issue:
  "(\<And>y. emits P (a y)) \<Longrightarrow> (\<And>y. emits P (b y)) \<Longrightarrow>
   emits P (case x of IssueInt y \<Rightarrow> a y | IssueStr y \<Rightarrow> b y)"
  by (cases x) simp_all

lemma emits_weaken:
  assumes m: "emits P m" and PQ: "\<And>e. P e \<Longrightarrow> Q e"
  shows "emits Q m"
proof (rule emitsI)
  fix w
  obtain evs where evs: "trace (snd (m w)) = trace w @ evs" "list_all P evs"
    using emitsD [OF m] by blast
  from evs(2) PQ have "list_all Q evs"
    by (simp add: list_all_iff)
  with evs(1) show "\<exists>evs. trace (snd (m w)) = trace w @ evs \<and> list_all Q evs"
    by blast
qed

lemmas emits_intros = emits_ret emits_raise emits_gets emits_answer emits_query
  emits_query_answer emits_read_file emits_bindp emits_catch_eb emits_if emits_let
  emits_case_option emits_case_sum emits_case_list emits_case_prod emits_case_issue

lemma emits_print_msg: "P (PrintMsg msg) \<Longrightarrow> emits P (print_msg msg)"
  by (simp add: print_msg_def emits_emit)

lemma emits_print_warning: "P (PrintWarning msg) \<Longrightarrow> emits P (print_warning msg)"
  by (simp add: print_warning_def emits_emit)

lemma emits_write_file: "P (WriteFile p txt) \<Longrightarrow> emits P (write_file p txt)"
  by (simp add: emits_def write_file_def)

lemma emits_mkdir: "P (Mkdir p) \<Longrightarrow> emits P (mkdir p)"
  by (simp add: emits_def mkdir_def)

lemma emits_mkdtemp: "(\<And>d. P (Mkdtemp d)) \<Longrightarrow> emits P (mkdtemp env pre)"
  by (simp add: emits_def mkdtemp_def Let_def)

lemma emits_fetch_github_token:
  "P (FetchToken user) \<Longrightarrow> emits P (fetch_github_token env user)"
  unfolding fetch_github_token_def by (intro emits_intros emits_emit)

lemma emits_github_api_get_request:
  assumes "\<And>e. basic_event e \<Longrightarrow> P e"
  shows "emits P (github_api_get_request env url github_user)"
  unfolding github_api_get_request_def
  by (intro emits_intros emits_emit emits_fetch_github_token assms) simp_all

lemma emits_fetch_latest_commit_sha:
  assumes "\<And>e. basic_event e \<Longrightarrow> P e"
  shows "emits P (fetch_latest_commit_sha env repo account branch github_user)"
  unfolding fetch_latest_commit_sha_def
  by (intro emits_intros emits_github_api_get_request assms)

lemma emits_download_file:
  assumes "\<And>e. basic_event e \<Longrightarrow> P e"
  shows "emits P (download_file env fn url path)"
  unfolding download_file_def
  by (intro emits_intros emits_external assms) simp

lemma emits_extract_file:
  assumes "\<And>e. basic_event e \<Longrightarrow> P e"
  shows "emits P (extract_file env fn dest)"
  unfolding extract_file_def
  by (intro emits_intros emits_external assms) simp

lemma emits_symlink:
  assumes "\<And>e. basic_event e \<Longrightarrow> P e"
  shows "emits P (symlink env a b)"
  unfolding symlink_def
  by (intro emits_intros emits_external assms) simp

lemma emits_download_repo:
  assumes "\<And>e. basic_event e \<Longrightarrow> P e"
  shows "emits P (download_repo env repo branch account path github_user)"
  unfolding download_repo_def
  by (intro emits_intros emits_mkdtemp emits_mkdir emits_fetch_latest_commit_sha
      emits_download_file emits_extract_file emits_write_file assms) simp_all

lemma emits_fetch_pr_data:
  assumes "\<And>e. basic_event e \<Longrightarrow> P e"
  shows "emits P (fetch_pr_data env pr account repo github_user full)"
  unfolding fetch_pr_data_def
  by (intro emits_intros emits_github_api_get_request assms)

subsection \<open>Merging\<close>

lemma merge_pr_own:
  assumes user: "opt_github_user env = Some user"
    and fetch: "fst (fetch_pr_data env pr (opt_pr_target_account env) (opt_pr_target_repo env)
                  (Some user) True w) = Inr pr_data"
    and own: "pr_user_login pr_data = user"
  shows "merge_pr env pr w =
           (Inl (EasyBuildError ''Please do not merge your own PRs!''),
            (snd (fetch_pr_data env pr (opt_pr_target_account env) (opt_pr_target_repo env)
                    (Some user) True w))
              \<lparr>trace := trace (snd (fetch_pr_data env pr (opt_pr_target_account env)
                                     (opt_pr_target_repo env) (Some user) True w))
                         @ [PrintMsg (merge_pr_submitted_msg env pr pr_data user)]\<rparr>)"
proof -
  obtain w1 where run: "fetch_pr_data env pr (opt_pr_target_account env) (opt_pr_target_repo env)
                          (Some user) True w = (Inr pr_data, w1)"
    using fetch by (cases "fetch_pr_data env pr (opt_pr_target_account env)
                             (opt_pr_target_repo env) (Some user) True w") simp
  show ?thesis
    using user own run
    by (simp add: merge_pr_def bindp_apply Let_def print_msg_def emit_def raise_def
        merge_pr_submitted_msg_def)
qed

text \<open>
  C10. When the author of the pull request is the configured GitHub user, \<open>merge_pr\<close> raises
  the error about merging one's own pull request. After the record is fetched the run only
  prints who submitted the pull request: there is no eligibility check, no comment and no
  merge request, and all events of the run are read requests and console output. The force
  option plays no part.
\<close>

theorem C10_no_merge_of_own_pr:
  assumes "opt_github_user env = Some user"
    and "fst (fetch_pr_data env pr (opt_pr_target_account env) (opt_pr_target_repo env)
           (Some user) True w) = Inr pr_data"
    and "pr_user_login pr_data = user"
  shows "fst (merge_pr env pr w) = Inl (EasyBuildError ''Please do not merge your own PRs!'') \<and>
         trace (snd (merge_pr env pr w)) =
           trace (snd (fetch_pr_data env pr (opt_pr_target_account env) (opt_pr_target_repo env)
                         (Some user) True w))
           @ [PrintMsg (merge_pr_submitted_msg env pr pr_data user)] \<and>
         list_all basic_event (new_events w (snd (merge_pr env pr w)))"
proof -
  let ?f = "fetch_pr_data env pr (opt_pr_target_account env) (opt_pr_target_repo env)
              (Some user) True"
  note run = merge_pr_own [OF assms]
  obtain evs where evs: "trace (snd (?f w)) = trace w @ evs" "list_all basic_event evs"
    using emitsD [OF emits_fetch_pr_data [of basic_event]] by blast
  from run evs show ?thesis
    by (simp add: new_events_def)
qed

subsection \<open>What a computation returns\<close>

lemma returnsI:
  assumes "\<And>w x. fst (m w) = Inr x \<Longrightarrow> Q x (snd (m w))"
  shows "returns Q m"
  using assms by (simp add: returns_def)

lemma returnsD: "returns Q m \<Longrightarrow> fst (m w) = Inr x \<Longrightarrow> Q x (snd (m w))"
  by (simp add: returns_def)

lemma returns_bindp:
  assumes "\<And>x. returns Q (f x)"
  shows "returns Q (bindp m f)"
proof (rule returnsI)
  fix w y
  assume run: "fst (bindp m f w) = Inr y"
  then obtain x where x: "fst (m w) = Inr x"
    by (cases "fst (m w)") (simp_all add: fst_bindp)
  with run have "fst (f x (snd (m w))) = Inr y"
    by (simp add: fst_bindp)
  from returnsD [OF assms this] x show "Q y (snd (bindp m f w))"
    by (simp add: snd_bindp)
qed

lemma returns_let: "returns Q (f s) \<Longrightarrow> returns Q (Let s f)"
  by simp

subsection \<open>The sanity check of the patched files\<close>

lemma check_patched_files_run:
  "check_patched_files path pfs ec_files w =
     (case find (\<lambda>p. \<not> os_path_exists p w) (map (\<lambda>f. os_path_join path (last3 f)) pfs) of
        None \<Rightarrow> (Inr (ec_files @ map (\<lambda>f. os_path_join path (last3 f)) pfs), w)
      | Some p \<Rightarrow> (Inl (EasyBuildError (''Couldn't find path to patched file '' @ p)), w))"
  by (induction pfs arbitrary: ec_files)
     (simp_all add: ret_def raise_def gets_def bindp_apply Let_def split: option.splits)

lemma sanity_check_patched_files_run:
  "sanity_check_patched_files path patched_files w =
     (case find (\<lambda>p. \<not> os_path_exists p w) (expected_paths path patched_files) of
        None \<Rightarrow> (Inr (expected_paths path patched_files), w)
      | Some p \<Rightarrow> (Inl (EasyBuildError (''Couldn't find path to patched file '' @ p)), w))"
  by (simp add: sanity_check_patched_files_def check_patched_files_run expected_paths_def
      split: option.splits)

lemma returns_sanity_check_patched_files:
  "returns (\<lambda>ec_files w. list_all (\<lambda>p. os_path_exists p w) ec_files)
     (sanity_check_patched_files path patched_files)"
proof (rule returnsI)
  fix w x
  assume "fst (sanity_check_patched_files path patched_files w) = Inr x"
  then have none: "find (\<lambda>p. \<not> os_path_exists p w) (expected_paths path patched_files) = None"
      and x: "x = expected_paths path patched_files"
      and same: "snd (sanity_check_patched_files path patched_files w) = w"
    by (auto simp: sanity_check_patched_files_run split: option.splits)
  from none have "list_all (\<lambda>p. os_path_exists p w) (expected_paths path patched_files)"
    by (simp add: find_None_iff list_all_iff)
  with x same
  show "list_all (\<lambda>p. os_path_exists p (snd (sanity_check_patched_files path patched_files w))) x"
    by simp
qed

lemma returns_fetch_easyconfigs_from_pr:
  "returns (\<lambda>ec_files w. list_all (\<lambda>p. os_path_exists p w) ec_files)
     (fetch_easyconfigs_from_pr env pr path github_user)"
  unfolding fetch_easyconfigs_from_pr_def
  by (intro returns_bindp returns_let returns_sanity_check_patched_files)

theorem C10_no_merge_of_own_pr_witness:
  "opt_github_user env_own_pr = Some ''alice'' \<and>
   opt_force env_own_pr \<and>
   pr_user_login pr_example = ''alice'' \<and>
   fst (fetch_pr_data env_own_pr 1234 ''easybuilders'' ''easybuild-easyconfigs''
          (Some ''alice'') True world0) = Inr pr_example \<and>
   fst (merge_pr env_own_pr 1234 world0) =
     Inl (EasyBuildError ''Please do not merge your own PRs!'') \<and>
   list_all basic_event (new_events world0 (snd (merge_pr env_own_pr 1234 world0)))"
proof -
  have user: "opt_github_user env_own_pr = Some ''alice''"
    by code_simp
  have force: "opt_force env_own_pr"
    by code_simp
  have account: "opt_pr_target_account env_own_pr = ''easybuilders''"
    by code_simp
  have repo: "opt_pr_target_repo env_own_pr = ''easybuild-easyconfigs''"
    by code_simp
  have own: "pr_user_login pr_example = ''alice''"
    by code_simp
  have fetch: "fst (fetch_pr_data env_own_pr 1234 ''easybuilders'' ''easybuild-easyconfigs''
                      (Some ''alice'') True world0) = Inr pr_example"
    by code_simp
  from user force account repo own fetch
    C10_no_merge_of_own_pr [of env_own_pr "''alice''" 1234 world0 pr_example]
  show ?thesis
    by simp
qed

subsection \<open>The files of a pull request\<close>

lemma emits_check_patched_files: "emits P (check_patched_files path pfs ec_files)"
  by (rule emitsI) (simp add: check_patched_files_run split: option.splits)

lemma emits_sanity_check_patched_files: "emits P (sanity_check_patched_files path pfs)"
  by (simp add: sanity_check_patched_files_def emits_check_patched_files)

lemma emits_symlink_dirs:
  assumes "\<And>e. basic_event e \<Longrightarrow> P e"
  shows "emits P (symlink_dirs env dirpath path eb_dirs)"
  by (induction eb_dirs) (auto intro!: emits_intros emits_symlink assms)

lemma emits_download_patched_files:
  assumes "\<And>e. basic_event e \<Longrightarrow> P e"
  shows "emits P (download_patched_files env account repo sha path pfs)"
  by (induction pfs) (auto intro!: emits_intros emits_download_file assms simp: Let_def)

lemma pr_final_path_merged:
  "pr_merged pr_data \<Longrightarrow>
   pr_final_path env pr pr_data path repo_target_branch diff_filepath patched_files =
     ret repo_target_branch"
  by (rule ext) (simp add: pr_final_path_def Let_def bindp_apply ret_def)

lemma fetch_pr_data_not_full:
  assumes "fst (fetch_pr_data env pr account repo github_user False w) = Inr pr_data"
  shows "\<exists>w'. pr_data = fst (snd (api_pull env account repo pr w'))"
proof -
  let ?w = "snd (github_api_get_request env ([''repos'', account, repo] @ [''pulls'', str_nat pr])
                    github_user w)"
  from assms have "pr_data = fst (snd (api_pull env account repo pr ?w))"
    by (auto simp: fetch_pr_data_def Let_def fst_bindp snd_bindp gets_def ret_def raise_def
        split: sum.splits prod.splits if_splits)
  then show ?thesis ..
qed

lemma emits_fetch_easyconfigs_from_pr_merged:
  assumes merged: "\<forall>w. pr_merged (fst (snd (api_pull env (opt_pr_target_account env)
                                                GITHUB_EASYCONFIGS_REPO pr w)))"
  shows "emits basic_event (fetch_easyconfigs_from_pr env pr path github_user)"
  unfolding fetch_easyconfigs_from_pr_def
  apply (intro emits_bindp_res emits_let emits_if emits_case_option emits_ret emits_mkdtemp
      emits_mkdir emits_fetch_pr_data emits_download_repo emits_download_file emits_read_file
      emits_query_answer emits_symlink_dirs emits_sanity_check_patched_files)
  apply (auto dest!: fetch_pr_data_not_full simp: pr_final_path_merged merged emits_ret)
  done

lemma pr_final_path_apply_fails:
  assumes "\<not> pr_merged pr_data" and "pr_state pr_data \<noteq> GITHUB_STATE_CLOSED"
    and "apply_patch_result env diff_filepath repo_target_branch
           (after_apply_patch env diff_filepath repo_target_branch w) = Inl (EasyBuildError msg)"
  shows "pr_final_path env pr pr_data path repo_target_branch diff_filepath patched_files w =
           per_file_download env pr_data path patched_files
             (after_apply_patch env diff_filepath repo_target_branch w)"
  using assms
  by (simp add: pr_final_path_def per_file_download_def after_apply_patch_def Let_def bindp_apply
      catch_eb_def apply_patch_def external_def answer_def ret_def)

lemma pr_final_path_closed:
  assumes "\<not> pr_merged pr_data" and "pr_state pr_data = GITHUB_STATE_CLOSED"
  shows "pr_final_path env pr pr_data path repo_target_branch diff_filepath patched_files =
           bindp (print_warning (''Using easyconfigs from closed PR #'' @ str_nat pr))
             (\<lambda>_. per_file_download env pr_data path patched_files)"
  using assms
  by (intro ext) (simp add: pr_final_path_def per_file_download_def Let_def bindp_apply ret_def
      split: prod.splits sum.splits)

lemma download_patched_files_trace:
  assumes "fst (download_patched_files env (opt_pr_target_account env) GITHUB_EASYCONFIGS_REPO
                  (pr_head_sha pr_data) path pfs w) = Inr u"
  shows "trace (snd (download_patched_files env (opt_pr_target_account env)
                       GITHUB_EASYCONFIGS_REPO (pr_head_sha pr_data) path pfs w)) =
           trace w @ map (patched_file_download env pr_data path) pfs"
  using assms
proof (induction pfs arbitrary: w)
  case Nil
  then show ?case by (simp add: ret_def)
next
  case (Cons pf pfs)
  let ?d = "download_file env (last3 pf)
              (join_with URL_SEPARATOR [GITHUB_RAW, opt_pr_target_account env,
                 GITHUB_EASYCONFIGS_REPO, pr_head_sha pr_data, pf])
              (os_path_join path (last3 pf))"
  from Cons.prems obtain r where r: "fst (?d w) = Inr r"
    by (cases "fst (?d w)") (simp_all add: Let_def fst_bindp)
  have step: "trace (snd (?d w)) = trace w @ [patched_file_download env pr_data path pf]"
    by (simp add: download_file_def bindp_apply external_def answer_def
        patched_file_download_def)
  from Cons.prems r
  have "fst (download_patched_files env (opt_pr_target_account env) GITHUB_EASYCONFIGS_REPO
               (pr_head_sha pr_data) path pfs (snd (?d w))) = Inr u"
    by (simp add: Let_def fst_bindp)
  from Cons.IH [OF this] r step show ?case
    by (simp add: Let_def snd_bindp)
qed

lemma per_file_download_trace:
  assumes "fst (per_file_download env pr_data path pfs w) = Inr p"
  shows "p = path \<and>
         trace (snd (per_file_download env pr_data path pfs w)) =
           trace w @ map (patched_file_download env pr_data path) pfs"
proof -
  let ?d = "download_patched_files env (opt_pr_target_account env) GITHUB_EASYCONFIGS_REPO
              (pr_head_sha pr_data) path pfs"
  from assms obtain u where u: "fst (?d w) = Inr u"
    by (cases "fst (?d w)") (simp_all add: per_file_download_def fst_bindp)
  from assms u download_patched_files_trace [OF u] show ?thesis
    by (simp add: per_file_download_def fst_bindp snd_bindp ret_def)
qed

subsection \<open>Software names for patch files\<close>














subsection \<open>The parts of the run of \<open>fetch_easyconfigs_from_pr\<close>\<close>

lemma bindp_assoc: "bindp (bindp m f) g = bindp m (\<lambda>x. bindp (f x) g)"
  by (intro ext) (simp add: bindp_apply split: prod.splits sum.splits)

lemma bindp_ret: "bindp (ret x) f = f x"
  by (intro ext) (simp add: bindp_apply ret_def)

lemma run_eq: "m w = (r, snd (m w)) \<longleftrightarrow> fst (m w) = r"
  by (cases "m w") auto

lemma new_events_emits:
  assumes "emits P m"
  shows "list_all P (new_events w (snd (m w)))"
proof -
  obtain evs where "trace (snd (m w)) = trace w @ evs" "list_all P evs"
    using emitsD [OF assms] by blast
  then show ?thesis by (simp add: new_events_def)
qed

lemma emits_trace_prefix:
  assumes "emits P m"
  shows "\<exists>evs. trace (snd (m w)) = trace w @ evs"
  using emitsD [OF assms] by blast

lemma new_events_append:
  assumes "trace w' = trace w @ evs" and "trace w'' = trace w' @ evs'"
  shows "new_events w w'' = new_events w w' @ new_events w' w''"
  using assms by (simp add: new_events_def)

lemma fetch_easyconfigs_from_pr_parts:
  "fetch_easyconfigs_from_pr env pr path github_user =
     bindp (pr_context env pr path github_user) (\<lambda>(dest, pr_data, tree, diff_txt).
     bindp (pr_reconstruct env pr pr_data dest tree diff_txt) (\<lambda>_.
     sanity_check_patched_files dest (det_patched_files env diff_txt)))"
  unfolding fetch_easyconfigs_from_pr_def pr_context_def pr_reconstruct_def symlink_tree_def
    pr_destination_def pr_user_def pr_diff_filepath_def easyconfigs_dir_def Let_def
  by (simp add: bindp_assoc bindp_ret)

lemma fetch_easyconfigs_from_pr_run:
  assumes "pr_context env pr path github_user w = (Inr (dest, pr_data, tree, diff_txt), w')"
  shows "fetch_easyconfigs_from_pr env pr path github_user w =
           bindp (pr_reconstruct env pr pr_data dest tree diff_txt)
             (\<lambda>_. sanity_check_patched_files dest (det_patched_files env diff_txt)) w'"
  by (subst fetch_easyconfigs_from_pr_parts, subst bindp_apply) (simp add: assms)

lemma pr_context_steps:
  assumes "pr_context env pr path github_user w = (Inr (dest, pr_data, tree, diff_txt), w')"
  shows "\<exists>w1 w2 w3.
           pr_destination env path w = (Inr dest, w1) \<and>
           fetch_pr_data env pr (opt_pr_target_account env) GITHUB_EASYCONFIGS_REPO
             (pr_user env github_user) False w1 = (Inr pr_data, w2) \<and>
           download_repo env GITHUB_EASYCONFIGS_REPO (pr_base_ref pr_data)
             (opt_pr_target_account env) None (pr_user env github_user) w2 = (Inr tree, w3) \<and>
           snd (download_file env (basename (pr_diff_url pr_data)) (pr_diff_url pr_data)
                  (pr_diff_filepath dest pr_data) w3) = w' \<and>
           files w' (pr_diff_filepath dest pr_data) = Some diff_txt"
proof -
  obtain r1 w1 where s1: "pr_destination env path w = (r1, w1)"
    by (cases "pr_destination env path w")
  with assms obtain d where d: "r1 = Inr d"
    by (cases r1) (simp_all add: pr_context_def bindp_apply)
  let ?f = "fetch_pr_data env pr (opt_pr_target_account env) GITHUB_EASYCONFIGS_REPO
              (pr_user env github_user) False"
  obtain r2 w2 where s2: "?f w1 = (r2, w2)"
    by (cases "?f w1")
  with assms s1 d obtain pd where pd: "r2 = Inr pd"
    by (cases r2) (simp_all add: pr_context_def bindp_apply)
  let ?r = "download_repo env GITHUB_EASYCONFIGS_REPO (pr_base_ref pd)
              (opt_pr_target_account env) None (pr_user env github_user)"
  obtain r3 w3 where s3: "?r w2 = (r3, w3)"
    by (cases "?r w2")
  with assms s1 d s2 pd obtain t where t: "r3 = Inr t"
    by (cases r3) (simp_all add: pr_context_def bindp_apply)
  let ?d = "download_file env (basename (pr_diff_url pd)) (pr_diff_url pd)
              (pr_diff_filepath d pd)"
  obtain r4 w4 where s4: "?d w3 = (r4, w4)"
    by (cases "?d w3")
  with assms s1 d s2 pd s3 t obtain x where x: "r4 = Inr x"
    by (cases r4) (simp_all add: pr_context_def bindp_apply)
  from assms s1 d s2 pd s3 t s4 x
  have "read_file (pr_diff_filepath d pd) w4 = (Inr diff_txt, w') \<and> d = dest \<and> pd = pr_data \<and>
        t = tree"
    by (auto simp: pr_context_def bindp_apply ret_def split: prod.splits sum.splits)
  then have "files w4 (pr_diff_filepath d pd) = Some diff_txt" "w4 = w'" "d = dest"
      "pd = pr_data" "t = tree"
    by (auto simp: read_file_def split: option.splits)
  with s1 d s2 pd s3 t s4 show ?thesis
    by auto
qed



lemma snd_sanity_check_patched_files [simp]:
  "snd (sanity_check_patched_files path patched_files w) = w"
  by (simp add: sanity_check_patched_files_run split: option.splits)



lemma basic_event_not_apply_patch: "basic_event e \<Longrightarrow> \<not> is_apply_patch e"
  by (cases e) simp_all




lemma fst_apply_patch:
  "fst (apply_patch env patch_file dest w) =
     apply_patch_result env patch_file dest (after_apply_patch env patch_file dest w)"
  by (simp add: apply_patch_def after_apply_patch_def bindp_apply external_def answer_def)

lemma snd_apply_patch:
  "snd (apply_patch env patch_file dest w) = after_apply_patch env patch_file dest w"
  by (simp add: apply_patch_def after_apply_patch_def bindp_apply external_def answer_def)

lemma trace_after_apply_patch:
  "trace (after_apply_patch env patch_file dest w) = trace w @ [ApplyPatch patch_file dest]"
  by (simp add: after_apply_patch_def external_def)

lemma bindp_run_cong: "m w = m' w' \<Longrightarrow> bindp m f w = bindp m' f w'"
  by (simp add: bindp_apply)

lemma symlink_tree_same: "symlink_tree env path path = ret ()"
  by (simp add: symlink_tree_def)

lemma per_file_download_then_links:
  "bindp (per_file_download env pr_data dest pfs) (\<lambda>final_path. symlink_tree env final_path dest) =
     head_downloads env pr_data dest pfs"
  by (intro ext)
     (simp add: per_file_download_def head_downloads_def bindp_apply ret_def symlink_tree_same
        split: prod.splits sum.splits)

lemma pr_reconstruct_apply_fails:
  assumes "\<not> pr_merged pr_data" and "pr_state pr_data \<noteq> GITHUB_STATE_CLOSED"
    and "fst (apply_patch env (pr_diff_filepath dest pr_data) tree w) = Inl (EasyBuildError msg)"
  shows "pr_reconstruct env pr pr_data dest tree diff_txt w =
           head_downloads env pr_data dest (det_patched_files env diff_txt)
             (snd (apply_patch env (pr_diff_filepath dest pr_data) tree w))"
proof -
  let ?pfs = "det_patched_files env diff_txt"
  let ?w = "after_apply_patch env (pr_diff_filepath dest pr_data) tree w"
  from assms(3)
  have fails: "apply_patch_result env (pr_diff_filepath dest pr_data) tree ?w =
                 Inl (EasyBuildError msg)"
    by (simp add: fst_apply_patch)
  have "pr_reconstruct env pr pr_data dest tree diff_txt w =
          bindp (per_file_download env pr_data dest ?pfs)
            (\<lambda>final_path. symlink_tree env final_path dest) ?w"
    unfolding pr_reconstruct_def
    by (rule bindp_run_cong) (rule pr_final_path_apply_fails [OF assms(1,2) fails])
  then show ?thesis
    by (simp add: per_file_download_then_links snd_apply_patch)
qed

lemma pr_reconstruct_closed:
  assumes "\<not> pr_merged pr_data" and "pr_state pr_data = GITHUB_STATE_CLOSED"
  shows "pr_reconstruct env pr pr_data dest tree diff_txt =
           bindp (print_warning (''Using easyconfigs from closed PR #'' @ str_nat pr))
             (\<lambda>_. head_downloads env pr_data dest (det_patched_files env diff_txt))"
  by (simp add: pr_reconstruct_def pr_final_path_closed [OF assms] bindp_assoc
      per_file_download_then_links)

lemma head_downloads_trace:
  assumes "fst (head_downloads env pr_data dest pfs w) = Inr u"
  shows "trace (snd (head_downloads env pr_data dest pfs w)) =
           trace w @ map (patched_file_download env pr_data dest) pfs"
  using assms download_patched_files_trace [of env pr_data dest pfs w u]
  by (simp add: head_downloads_def)

lemma emits_head_downloads:
  assumes "\<And>e. basic_event e \<Longrightarrow> P e"
  shows "emits P (head_downloads env pr_data dest pfs)"
  unfolding head_downloads_def by (rule emits_download_patched_files) (rule assms)

lemma snd_print_warning:
  "trace (snd (print_warning msg w)) = trace w @ [PrintWarning msg]"
  by (simp add: print_warning_def emit_def)

lemma fetch_apply_fails:
  assumes ctx: "pr_context env pr path github_user w = (Inr (dest, pr_data, tree, diff_txt), w')"
    and unmerged: "\<not> pr_merged pr_data"
    and not_closed: "pr_state pr_data \<noteq> GITHUB_STATE_CLOSED"
    and fails: "fst (apply_patch env (pr_diff_filepath dest pr_data) tree w') =
                  Inl (EasyBuildError msg)"
  shows "fetch_easyconfigs_from_pr env pr path github_user w =
           bindp (head_downloads env pr_data dest (det_patched_files env diff_txt))
             (\<lambda>_. sanity_check_patched_files dest (det_patched_files env diff_txt))
             (snd (apply_patch env (pr_diff_filepath dest pr_data) tree w'))"
  unfolding fetch_easyconfigs_from_pr_run [OF ctx]
  by (rule bindp_run_cong) (rule pr_reconstruct_apply_fails [OF unmerged not_closed fails])

lemma fetch_apply_fails_events:
  assumes ctx: "pr_context env pr path github_user w = (Inr (dest, pr_data, tree, diff_txt), w')"
    and unmerged: "\<not> pr_merged pr_data"
    and not_closed: "pr_state pr_data \<noteq> GITHUB_STATE_CLOSED"
    and fails: "fst (apply_patch env (pr_diff_filepath dest pr_data) tree w') =
                  Inl (EasyBuildError msg)"
    and loaded: "fst (head_downloads env pr_data dest (det_patched_files env diff_txt)
                        (snd (apply_patch env (pr_diff_filepath dest pr_data) tree w'))) = Inr ()"
  shows "new_events w' (snd (fetch_easyconfigs_from_pr env pr path github_user w)) =
           ApplyPatch (pr_diff_filepath dest pr_data) tree #
           map (patched_file_download env pr_data dest) (det_patched_files env diff_txt) \<and>
         fst (fetch_easyconfigs_from_pr env pr path github_user w) =
           fst (sanity_check_patched_files dest (det_patched_files env diff_txt)
                  (snd (fetch_easyconfigs_from_pr env pr path github_user w)))"
proof -
  let ?wa = "snd (apply_patch env (pr_diff_filepath dest pr_data) tree w')"
  let ?d = "head_downloads env pr_data dest (det_patched_files env diff_txt)"
  have run: "fetch_easyconfigs_from_pr env pr path github_user w =
               sanity_check_patched_files dest (det_patched_files env diff_txt) (snd (?d ?wa))"
    using loaded
    by (cases "?d ?wa")
       (simp add: fetch_apply_fails [OF ctx unmerged not_closed fails] bindp_apply)
  from head_downloads_trace [OF loaded] show ?thesis
    by (simp add: run new_events_def snd_apply_patch trace_after_apply_patch)
qed

lemma fetch_closed:
  assumes ctx: "pr_context env pr path github_user w = (Inr (dest, pr_data, tree, diff_txt), w')"
    and unmerged: "\<not> pr_merged pr_data"
    and closed: "pr_state pr_data = GITHUB_STATE_CLOSED"
  shows "fetch_easyconfigs_from_pr env pr path github_user w =
           bindp (print_warning (''Using easyconfigs from closed PR #'' @ str_nat pr)) (\<lambda>_.
           bindp (head_downloads env pr_data dest (det_patched_files env diff_txt)) (\<lambda>_.
           sanity_check_patched_files dest (det_patched_files env diff_txt))) w'"
  by (simp add: fetch_easyconfigs_from_pr_run [OF ctx] pr_reconstruct_closed [OF unmerged closed]
      bindp_assoc)

lemma fetch_closed_warning:
  assumes ctx: "pr_context env pr path github_user w = (Inr (dest, pr_data, tree, diff_txt), w')"
    and unmerged: "\<not> pr_merged pr_data"
    and closed: "pr_state pr_data = GITHUB_STATE_CLOSED"
  shows "\<exists>evs. new_events w' (snd (fetch_easyconfigs_from_pr env pr path github_user w)) =
           PrintWarning (''Using easyconfigs from closed PR #'' @ str_nat pr) # evs \<and>
           list_all (\<lambda>e. basic_event e \<and> \<not> is_apply_patch e) evs"
proof -
  let ?P = "\<lambda>e. basic_event e \<and> \<not> is_apply_patch e"
  let ?msg = "''Using easyconfigs from closed PR #'' @ str_nat pr"
  let ?ww = "snd (print_warning ?msg w')"
  let ?rest = "bindp (head_downloads env pr_data dest (det_patched_files env diff_txt))
                 (\<lambda>_. sanity_check_patched_files dest (det_patched_files env diff_txt))"
  have P: "\<And>e. basic_event e \<Longrightarrow> ?P e"
    by (simp add: basic_event_not_apply_patch)
  have run: "fetch_easyconfigs_from_pr env pr path github_user w = ?rest ?ww"
    by (simp add: fetch_closed [OF ctx unmerged closed] bindp_apply print_warning_def emit_def)
  have "emits ?P ?rest"
    by (intro emits_intros emits_head_downloads emits_sanity_check_patched_files P)
  from emitsD [OF this, of ?ww]
  obtain evs where evs: "trace (snd (?rest ?ww)) = trace ?ww @ evs" "list_all ?P evs"
    by auto
  from evs have "new_events w' (snd (fetch_easyconfigs_from_pr env pr path github_user w)) =
                   PrintWarning ?msg # evs"
    by (simp add: run new_events_def snd_print_warning)
  with evs(2) show ?thesis
    by blast
qed

lemma fetch_closed_events:
  assumes ctx: "pr_context env pr path github_user w = (Inr (dest, pr_data, tree, diff_txt), w')"
    and unmerged: "\<not> pr_merged pr_data"
    and closed: "pr_state pr_data = GITHUB_STATE_CLOSED"
    and loaded: "fst (head_downloads env pr_data dest (det_patched_files env diff_txt)
                        (snd (print_warning (''Using easyconfigs from closed PR #'' @ str_nat pr)
                                w'))) = Inr ()"
  shows "new_events w' (snd (fetch_easyconfigs_from_pr env pr path github_user w)) =
           PrintWarning (''Using easyconfigs from closed PR #'' @ str_nat pr) #
           map (patched_file_download env pr_data dest) (det_patched_files env diff_txt) \<and>
         fst (fetch_easyconfigs_from_pr env pr path github_user w) =
           fst (sanity_check_patched_files dest (det_patched_files env diff_txt)
                  (snd (fetch_easyconfigs_from_pr env pr path github_user w)))"
proof -
  let ?msg = "''Using easyconfigs from closed PR #'' @ str_nat pr"
  let ?ww = "snd (print_warning ?msg w')"
  let ?d = "head_downloads env pr_data dest (det_patched_files env diff_txt)"
  have run: "fetch_easyconfigs_from_pr env pr path github_user w =
               sanity_check_patched_files dest (det_patched_files env diff_txt) (snd (?d ?ww))"
    using loaded
    by (cases "?d ?ww")
       (simp add: fetch_closed [OF ctx unmerged closed] bindp_apply print_warning_def emit_def)
  from head_downloads_trace [OF loaded] show ?thesis
    by (simp add: run new_events_def snd_print_warning)
qed

text \<open>
  C6. Let the first part of \<open>fetch_easyconfigs_from_pr\<close> return the destination, the record of
  the pull request, the tree of the base branch and the text of the diff, the record not
  being merged. If the pull request is not closed and applying the diff to the tree raises an
  \<open>EasyBuildError\<close>, the error is not propagated: the run goes on, from the world the attempt
  left, with the download of each file named in the diff at the head commit into the
  destination, and then the sanity check; when the downloads return, the events after the
  first part are the attempt followed by exactly one download per file, and the result is that
  of the sanity check. If the pull request is closed no patch is tried: the first event after
  the first part is the warning \<open>Using easyconfigs from closed PR #\<close> with the number, no later
  event is an attempt to apply a patch, and the same downloads and the sanity check follow.
\<close>

theorem C6_apply_failure_falls_through:
  assumes "pr_context env pr path github_user w = (Inr (dest, pr_data, tree, diff_txt), w')"
    and "\<not> pr_merged pr_data"
  shows
  "(pr_state pr_data \<noteq> GITHUB_STATE_CLOSED \<longrightarrow>
    fst (apply_patch env (pr_diff_filepath dest pr_data) tree w') = Inl (EasyBuildError msg) \<longrightarrow>
      fetch_easyconfigs_from_pr env pr path github_user w =
        bindp (head_downloads env pr_data dest (det_patched_files env diff_txt))
          (\<lambda>_. sanity_check_patched_files dest (det_patched_files env diff_txt))
          (snd (apply_patch env (pr_diff_filepath dest pr_data) tree w')) \<and>
      (fst (head_downloads env pr_data dest (det_patched_files env diff_txt)
              (snd (apply_patch env (pr_diff_filepath dest pr_data) tree w'))) = Inr () \<longrightarrow>
         new_events w' (snd (fetch_easyconfigs_from_pr env pr path github_user w)) =
           ApplyPatch (pr_diff_filepath dest pr_data) tree #
           map (patched_file_download env pr_data dest) (det_patched_files env diff_txt) \<and>
         fst (fetch_easyconfigs_from_pr env pr path github_user w) =
           fst (sanity_check_patched_files dest (det_patched_files env diff_txt)
                  (snd (fetch_easyconfigs_from_pr env pr path github_user w))))) \<and>
   (pr_state pr_data = GITHUB_STATE_CLOSED \<longrightarrow>
      fetch_easyconfigs_from_pr env pr path github_user w =
        bindp (print_warning (''Using easyconfigs from closed PR #'' @ str_nat pr)) (\<lambda>_.
        bindp (head_downloads env pr_data dest (det_patched_files env diff_txt)) (\<lambda>_.
        sanity_check_patched_files dest (det_patched_files env diff_txt))) w' \<and>
      (\<exists>evs. new_events w' (snd (fetch_easyconfigs_from_pr env pr path github_user w)) =
               PrintWarning (''Using easyconfigs from closed PR #'' @ str_nat pr) # evs \<and>
             list_all (\<lambda>e. basic_event e \<and> \<not> is_apply_patch e) evs) \<and>
      (fst (head_downloads env pr_data dest (det_patched_files env diff_txt)
              (snd (print_warning (''Using easyconfigs from closed PR #'' @ str_nat pr) w'))) =
         Inr () \<longrightarrow>
         new_events w' (snd (fetch_easyconfigs_from_pr env pr path github_user w)) =
           PrintWarning (''Using easyconfigs from closed PR #'' @ str_nat pr) #
           map (patched_file_download env pr_data dest) (det_patched_files env diff_txt) \<and>
         fst (fetch_easyconfigs_from_pr env pr path github_user w) =
           fst (sanity_check_patched_files dest (det_patched_files env diff_txt)
                  (snd (fetch_easyconfigs_from_pr env pr path github_user w)))))"
proof (intro conjI impI)
  assume a: "pr_state pr_data \<noteq> GITHUB_STATE_CLOSED"
    "fst (apply_patch env (pr_diff_filepath dest pr_data) tree w') = Inl (EasyBuildError msg)"
  show "fetch_easyconfigs_from_pr env pr path github_user w =
          bindp (head_downloads env pr_data dest (det_patched_files env diff_txt))
            (\<lambda>_. sanity_check_patched_files dest (det_patched_files env diff_txt))
            (snd (apply_patch env (pr_diff_filepath dest pr_data) tree w'))"
    by (rule fetch_apply_fails [OF assms a])
  assume b: "fst (head_downloads env pr_data dest (det_patched_files env diff_txt)
                    (snd (apply_patch env (pr_diff_filepath dest pr_data) tree w'))) = Inr ()"
  from fetch_apply_fails_events [OF assms a b]
  show "new_events w' (snd (fetch_easyconfigs_from_pr env pr path github_user w)) =
          ApplyPatch (pr_diff_filepath dest pr_data) tree #
          map (patched_file_download env pr_data dest) (det_patched_files env diff_txt)"
    by simp
  from fetch_apply_fails_events [OF assms a b]
  show "fst (fetch_easyconfigs_from_pr env pr path github_user w) =
          fst (sanity_check_patched_files dest (det_patched_files env diff_txt)
                 (snd (fetch_easyconfigs_from_pr env pr path github_user w)))"
    by simp
next
  assume a: "pr_state pr_data = GITHUB_STATE_CLOSED"
  show "fetch_easyconfigs_from_pr env pr path github_user w =
          bindp (print_warning (''Using easyconfigs from closed PR #'' @ str_nat pr)) (\<lambda>_.
          bindp (head_downloads env pr_data dest (det_patched_files env diff_txt)) (\<lambda>_.
          sanity_check_patched_files dest (det_patched_files env diff_txt))) w'"
    by (rule fetch_closed [OF assms a])
  show "\<exists>evs. new_events w' (snd (fetch_easyconfigs_from_pr env pr path github_user w)) =
                PrintWarning (''Using easyconfigs from closed PR #'' @ str_nat pr) # evs \<and>
              list_all (\<lambda>e. basic_event e \<and> \<not> is_apply_patch e) evs"
    by (rule fetch_closed_warning [OF assms a])
  assume b: "fst (head_downloads env pr_data dest (det_patched_files env diff_txt)
                    (snd (print_warning (''Using easyconfigs from closed PR #'' @ str_nat pr)
                            w'))) = Inr ()"
  from fetch_closed_events [OF assms a b]
  show "new_events w' (snd (fetch_easyconfigs_from_pr env pr path github_user w)) =
          PrintWarning (''Using easyconfigs from closed PR #'' @ str_nat pr) #
          map (patched_file_download env pr_data dest) (det_patched_files env diff_txt)"
    by simp
  from fetch_closed_events [OF assms a b]
  show "fst (fetch_easyconfigs_from_pr env pr path github_user w) =
          fst (sanity_check_patched_files dest (det_patched_files env diff_txt)
                 (snd (fetch_easyconfigs_from_pr env pr path github_user w)))"
    by simp
qed

subsection \<open>The sanity check at the end of \<open>fetch_easyconfigs_from_pr\<close>\<close>

lemma fetch_checked:
  assumes ctx: "pr_context env pr path github_user w = (Inr (dest, pr_data, tree, diff_txt), w')"
    and built: "fst (pr_reconstruct env pr pr_data dest tree diff_txt w') = Inr ()"
  shows "fetch_easyconfigs_from_pr env pr path github_user w =
           sanity_check_patched_files dest (det_patched_files env diff_txt)
             (snd (pr_reconstruct env pr pr_data dest tree diff_txt w'))"
  using built
  by (cases "pr_reconstruct env pr pr_data dest tree diff_txt w'")
     (simp add: fetch_easyconfigs_from_pr_run [OF ctx] bindp_apply)

lemma fetch_returns:
  assumes ctx: "pr_context env pr path github_user w = (Inr (dest, pr_data, tree, diff_txt), w')"
    and ret: "fst (fetch_easyconfigs_from_pr env pr path github_user w) = Inr ec_files"
  shows "ec_files = expected_paths dest (det_patched_files env diff_txt) \<and>
         list_all (\<lambda>p. os_path_exists p (snd (fetch_easyconfigs_from_pr env pr path github_user w)))
           ec_files"
proof -
  let ?r = "pr_reconstruct env pr pr_data dest tree diff_txt"
  let ?pfs = "det_patched_files env diff_txt"
  from ret have "fst (?r w') = Inr ()"
    by (cases "fst (?r w')") (simp_all add: fetch_easyconfigs_from_pr_run [OF ctx] fst_bindp)
  note run = fetch_checked [OF ctx this]
  from ret have "find (\<lambda>p. \<not> os_path_exists p (snd (?r w'))) (expected_paths dest ?pfs) = None"
      and "ec_files = expected_paths dest ?pfs"
    by (auto simp: run sanity_check_patched_files_run split: option.splits)
  then show ?thesis
    by (simp add: run find_None_iff list_all_iff)
qed

text \<open>
  C7. Let the first part of \<open>fetch_easyconfigs_from_pr\<close> return the destination and the text
  of the diff, which is the content of the diff file it downloaded. When the reconstruction
  (the choice of the tree and the links) has returned, the run ends with the check of every
  file named in the diff that is not under \<open>test/\<close>, in order, at its expected path under the
  destination (the destination joined with the last three components of the file's path): if
  all exist \<open>fetch_easyconfigs_from_pr\<close> returns exactly these paths, and otherwise it raises
  an error that names the first missing path; the check changes nothing. Whenever
  \<open>fetch_easyconfigs_from_pr\<close> returns, it returns these paths and they all exist.
\<close>

theorem C7_sanity_check:
  assumes "pr_context env pr path github_user w = (Inr (dest, pr_data, tree, diff_txt), w')"
  shows
  "(fst (pr_reconstruct env pr pr_data dest tree diff_txt w') = Inr () \<longrightarrow>
      fetch_easyconfigs_from_pr env pr path github_user w =
        (case find (\<lambda>p. \<not> os_path_exists p
                             (snd (pr_reconstruct env pr pr_data dest tree diff_txt w')))
                (expected_paths dest (det_patched_files env diff_txt)) of
           None \<Rightarrow> (Inr (expected_paths dest (det_patched_files env diff_txt)),
                    snd (pr_reconstruct env pr pr_data dest tree diff_txt w'))
         | Some p \<Rightarrow> (Inl (EasyBuildError (''Couldn't find path to patched file '' @ p)),
                     snd (pr_reconstruct env pr pr_data dest tree diff_txt w')))) \<and>
   (fst (fetch_easyconfigs_from_pr env pr path github_user w) = Inr ec_files \<longrightarrow>
      ec_files = expected_paths dest (det_patched_files env diff_txt) \<and>
      list_all (\<lambda>p. os_path_exists p (snd (fetch_easyconfigs_from_pr env pr path github_user w)))
        ec_files) \<and>
   files w' (pr_diff_filepath dest pr_data) = Some diff_txt \<and>
   (\<exists>w1. pr_destination env path w = (Inr dest, w1))"
proof (intro conjI impI)
  assume "fst (pr_reconstruct env pr pr_data dest tree diff_txt w') = Inr ()"
  from fetch_checked [OF assms this]
  show "fetch_easyconfigs_from_pr env pr path github_user w =
          (case find (\<lambda>p. \<not> os_path_exists p
                               (snd (pr_reconstruct env pr pr_data dest tree diff_txt w')))
                  (expected_paths dest (det_patched_files env diff_txt)) of
             None \<Rightarrow> (Inr (expected_paths dest (det_patched_files env diff_txt)),
                      snd (pr_reconstruct env pr pr_data dest tree diff_txt w'))
           | Some p \<Rightarrow> (Inl (EasyBuildError (''Couldn't find path to patched file '' @ p)),
                       snd (pr_reconstruct env pr pr_data dest tree diff_txt w')))"
    by (simp add: sanity_check_patched_files_run)
next
  assume r: "fst (fetch_easyconfigs_from_pr env pr path github_user w) = Inr ec_files"
  from fetch_returns [OF assms r, THEN conjunct1]
  show "ec_files = expected_paths dest (det_patched_files env diff_txt)" .
  from fetch_returns [OF assms r, THEN conjunct2]
  show "list_all (\<lambda>p. os_path_exists p
                        (snd (fetch_easyconfigs_from_pr env pr path github_user w))) ec_files" .
next
  from pr_context_steps [OF assms]
  show "files w' (pr_diff_filepath dest pr_data) = Some diff_txt"
    by blast
next
  from pr_context_steps [OF assms]
  show "\<exists>w1. pr_destination env path w = (Inr dest, w1)"
    by blast
qed


theorem C6_apply_failure_falls_through_witness:
  "fst (pr_context env_apply_fails 1234 None None world0) =
     Inr (''/prs'', pr_example, ''/tmp/3/easybuilders/easybuild-easyconfigs-develop'',
          ''content of https://github.com/easybuilders/easybuild-easyconfigs/pull/1234.diff'') \<and>
   \<not> pr_merged pr_example \<and> pr_state pr_example \<noteq> GITHUB_STATE_CLOSED \<and>
   fst (apply_patch env_apply_fails ''/prs/1234.diff''
          ''/tmp/3/easybuilders/easybuild-easyconfigs-develop''
          (snd (pr_context env_apply_fails 1234 None None world0))) =
     Inl (EasyBuildError ''patch does not apply'') \<and>
   new_events (snd (pr_context env_apply_fails 1234 None None world0))
     (snd (fetch_easyconfigs_from_pr env_apply_fails 1234 None None world0)) =
     [ApplyPatch ''/prs/1234.diff'' ''/tmp/3/easybuilders/easybuild-easyconfigs-develop'',
      DownloadFile ''z/zlib/zlib-1.2.11.eb''
        (''https://raw.githubusercontent.com/easybuilders/easybuild-easyconfigs/0123abc/'' @
         ''easybuild/easyconfigs/z/zlib/zlib-1.2.11.eb'')
        ''/prs/z/zlib/zlib-1.2.11.eb''] \<and>
   fst (fetch_easyconfigs_from_pr env_apply_fails 1234 None None world0) =
     Inr [''/prs/z/zlib/zlib-1.2.11.eb''] \<and>
   fst (pr_context env_closed 1234 None None world0) =
     Inr (''/prs'', pr_closed_example, ''/tmp/3/easybuilders/easybuild-easyconfigs-develop'',
          ''content of https://github.com/easybuilders/easybuild-easyconfigs/pull/1234.diff'') \<and>
   \<not> pr_merged pr_closed_example \<and> pr_state pr_closed_example = GITHUB_STATE_CLOSED \<and>
   new_events (snd (pr_context env_closed 1234 None None world0))
     (snd (fetch_easyconfigs_from_pr env_closed 1234 None None world0)) =
     [PrintWarning ''Using easyconfigs from closed PR #1234'',
      DownloadFile ''z/zlib/zlib-1.2.11.eb''
        (''https://raw.githubusercontent.com/easybuilders/easybuild-easyconfigs/0123abc/'' @
         ''easybuild/easyconfigs/z/zlib/zlib-1.2.11.eb'')
        ''/prs/z/zlib/zlib-1.2.11.eb''] \<and>
   fst (fetch_easyconfigs_from_pr env_closed 1234 None None world0) =
     Inr [''/prs/z/zlib/zlib-1.2.11.eb'']"
proof -
  let ?tree = "''/tmp/3/easybuilders/easybuild-easyconfigs-develop''"
  let ?diff = "''content of https://github.com/easybuilders/easybuild-easyconfigs/pull/1234.diff''"
  let ?wo = "snd (pr_context env_apply_fails 1234 None None world0)"
  let ?wc = "snd (pr_context env_closed 1234 None None world0)"
  let ?msg = "''Using easyconfigs from closed PR #'' @ str_nat 1234"
  have ctx_open: "fst (pr_context env_apply_fails 1234 None None world0) =
                    Inr (''/prs'', pr_example, ?tree, ?diff)"
    by code_simp
  then have run_open: "pr_context env_apply_fails 1234 None None world0 =
                         (Inr (''/prs'', pr_example, ?tree, ?diff), ?wo)"
    by (simp add: run_eq)
  have ctx_closed: "fst (pr_context env_closed 1234 None None world0) =
                      Inr (''/prs'', pr_closed_example, ?tree, ?diff)"
    by code_simp
  then have run_closed: "pr_context env_closed 1234 None None world0 =
                           (Inr (''/prs'', pr_closed_example, ?tree, ?diff), ?wc)"
    by (simp add: run_eq)
  have open_pr: "\<not> pr_merged pr_example" "pr_state pr_example \<noteq> GITHUB_STATE_CLOSED"
    by code_simp+
  have closed_pr: "\<not> pr_merged pr_closed_example"
      "pr_state pr_closed_example = GITHUB_STATE_CLOSED"
    by code_simp+
  have diff_open: "pr_diff_filepath ''/prs'' pr_example = ''/prs/1234.diff''"
    by code_simp
  have fails: "fst (apply_patch env_apply_fails (pr_diff_filepath ''/prs'' pr_example) ?tree ?wo) =
                 Inl (EasyBuildError ''patch does not apply'')"
    by (simp add: fst_apply_patch env_apply_fails_def)
  have pfs_open: "det_patched_files env_apply_fails ?diff = [zlib_eb]"
    by (simp add: env_apply_fails_def env_example_def)
  have pfs_closed: "det_patched_files env_closed ?diff = [zlib_eb]"
    by (simp add: env_closed_def env_example_def)
  have loaded_open:
    "fst (head_downloads env_apply_fails pr_example ''/prs''
            (det_patched_files env_apply_fails ?diff)
            (snd (apply_patch env_apply_fails (pr_diff_filepath ''/prs'' pr_example) ?tree ?wo))) =
       Inr ()"
    by code_simp
  have loaded_closed:
    "fst (head_downloads env_closed pr_closed_example ''/prs''
            (det_patched_files env_closed ?diff) (snd (print_warning ?msg ?wc))) = Inr ()"
    by code_simp
  have download_open:
    "map (patched_file_download env_apply_fails pr_example ''/prs'')
       (det_patched_files env_apply_fails ?diff) =
       [DownloadFile ''z/zlib/zlib-1.2.11.eb''
          (''https://raw.githubusercontent.com/easybuilders/easybuild-easyconfigs/0123abc/'' @
           ''easybuild/easyconfigs/z/zlib/zlib-1.2.11.eb'')
          ''/prs/z/zlib/zlib-1.2.11.eb'']"
    by code_simp
  have download_closed:
    "map (patched_file_download env_closed pr_closed_example ''/prs'')
       (det_patched_files env_closed ?diff) =
       [DownloadFile ''z/zlib/zlib-1.2.11.eb''
          (''https://raw.githubusercontent.com/easybuilders/easybuild-easyconfigs/0123abc/'' @
           ''easybuild/easyconfigs/z/zlib/zlib-1.2.11.eb'')
          ''/prs/z/zlib/zlib-1.2.11.eb'']"
    by code_simp
  have msg: "?msg = ''Using easyconfigs from closed PR #1234''"
    by code_simp
  have result_open: "fst (fetch_easyconfigs_from_pr env_apply_fails 1234 None None world0) =
                       Inr [''/prs/z/zlib/zlib-1.2.11.eb'']"
    by code_simp
  have result_closed: "fst (fetch_easyconfigs_from_pr env_closed 1234 None None world0) =
                         Inr [''/prs/z/zlib/zlib-1.2.11.eb'']"
    by code_simp
  note c6_open = C6_apply_failure_falls_through [OF run_open open_pr(1),
      where msg = "''patch does not apply''", THEN conjunct1, rule_format, OF open_pr(2) fails,
      THEN conjunct2, rule_format, OF loaded_open, THEN conjunct1,
      unfolded download_open diff_open]
  note c6_closed = C6_apply_failure_falls_through [OF run_closed closed_pr(1),
      where msg = "[]", THEN conjunct2, rule_format, OF closed_pr(2),
      THEN conjunct2, THEN conjunct2, rule_format, OF loaded_closed, THEN conjunct1,
      unfolded download_closed msg]
  from ctx_open open_pr fails [unfolded diff_open] c6_open result_open
    ctx_closed closed_pr c6_closed result_closed
  show ?thesis
    by (intro conjI)
qed

theorem C7_sanity_check_witness:
  "fst (pr_context env_example 1234 None None world0) =
     Inr (''/prs'', pr_example, ''/tmp/3/easybuilders/easybuild-easyconfigs-develop'',
          ''content of https://github.com/easybuilders/easybuild-easyconfigs/pull/1234.diff'') \<and>
   fst (pr_reconstruct env_example 1234 pr_example ''/prs''
          ''/tmp/3/easybuilders/easybuild-easyconfigs-develop''
          ''content of https://github.com/easybuilders/easybuild-easyconfigs/pull/1234.diff''
          (snd (pr_context env_example 1234 None None world0))) = Inr () \<and>
   fst (fetch_easyconfigs_from_pr env_example 1234 None None world0) =
     Inr [''/prs/z/zlib/zlib-1.2.11.eb''] \<and>
   fst (pr_context env_missing 1234 None None world0) =
     Inr (''/prs'', pr_example, ''/tmp/3/easybuilders/easybuild-easyconfigs-develop'',
          ''content of https://github.com/easybuilders/easybuild-easyconfigs/pull/1234.diff'') \<and>
   fst (pr_reconstruct env_missing 1234 pr_example ''/prs''
          ''/tmp/3/easybuilders/easybuild-easyconfigs-develop''
          ''content of https://github.com/easybuilders/easybuild-easyconfigs/pull/1234.diff''
          (snd (pr_context env_missing 1234 None None world0))) = Inr () \<and>
   fst (fetch_easyconfigs_from_pr env_missing 1234 None None world0) =
     Inl (EasyBuildError ''Couldn't find path to patched file /prs/a/abc/abc-1.0.eb'')"
proof -
  let ?tree = "''/tmp/3/easybuilders/easybuild-easyconfigs-develop''"
  let ?diff = "''content of https://github.com/easybuilders/easybuild-easyconfigs/pull/1234.diff''"
  let ?we = "snd (pr_context env_example 1234 None None world0)"
  let ?wm = "snd (pr_context env_missing 1234 None None world0)"
  have ctx: "fst (pr_context env_example 1234 None None world0) =
               Inr (''/prs'', pr_example, ?tree, ?diff)"
    by code_simp
  then have run: "pr_context env_example 1234 None None world0 =
                    (Inr (''/prs'', pr_example, ?tree, ?diff), ?we)"
    by (simp add: run_eq)
  have ctx_m: "fst (pr_context env_missing 1234 None None world0) =
                 Inr (''/prs'', pr_example, ?tree, ?diff)"
    by code_simp
  then have run_m: "pr_context env_missing 1234 None None world0 =
                      (Inr (''/prs'', pr_example, ?tree, ?diff), ?wm)"
    by (simp add: run_eq)
  have built: "fst (pr_reconstruct env_example 1234 pr_example ''/prs'' ?tree ?diff ?we) = Inr ()"
    by code_simp
  have built_m: "fst (pr_reconstruct env_missing 1234 pr_example ''/prs'' ?tree ?diff ?wm) = Inr ()"
    by code_simp
  have found: "find (\<lambda>p. \<not> os_path_exists p
                             (snd (pr_reconstruct env_example 1234 pr_example ''/prs'' ?tree ?diff
                                     ?we)))
                 (expected_paths ''/prs'' (det_patched_files env_example ?diff)) = None"
    by code_simp
  have missing: "find (\<lambda>p. \<not> os_path_exists p
                               (snd (pr_reconstruct env_missing 1234 pr_example ''/prs'' ?tree
                                       ?diff ?wm)))
                   (expected_paths ''/prs'' (det_patched_files env_missing ?diff)) =
                   Some ''/prs/a/abc/abc-1.0.eb''"
    by code_simp
  have paths: "expected_paths ''/prs'' (det_patched_files env_example ?diff) =
                 [''/prs/z/zlib/zlib-1.2.11.eb'']"
    by code_simp
  from C7_sanity_check [OF run, THEN conjunct1, rule_format, OF built, unfolded found]
  have ok: "fst (fetch_easyconfigs_from_pr env_example 1234 None None world0) =
              Inr [''/prs/z/zlib/zlib-1.2.11.eb'']"
    by (simp add: paths)
  from C7_sanity_check [OF run_m, THEN conjunct1, rule_format, OF built_m, unfolded missing]
  have bad: "fst (fetch_easyconfigs_from_pr env_missing 1234 None None world0) =
               Inl (EasyBuildError ''Couldn't find path to patched file /prs/a/abc/abc-1.0.eb'')"
    by simp
  from ctx built ok ctx_m built_m bad show ?thesis
    by (intro conjI)
qed

end
